theory Spec2Isabelle
  imports Main
begin

section \<open>Values, dictionaries and exceptions\<close>

text \<open>
  The tool layer of the MCP host (directory \<^verbatim>\<open>trial/\<close>) handles JSON-like Python values:
  filters, pipelines, tool arguments and tool results. A Python \<^verbatim>\<open>dict\<close> keeps its
  insertion order, so it is an association list; \<^verbatim>\<open>POid\<close> is a BSON ObjectId (the
  hexadecimal digits of its bytes) and \<^verbatim>\<open>PDate\<close> a datetime produced by \<^verbatim>\<open>isoparse\<close>.
\<close>

datatype pyval =
    PNone
  | PBool bool
  | PInt int
  | PStr string
  | POid string
  | PDate string
  | PList "pyval list"
  | PDict "(string \<times> pyval) list"

type_synonym pydict = "(string \<times> pyval) list"

datatype py_exn =
    ToolException string
  | HTTPException int string
  | RuntimeError string
  | ValueError string
  | TypeError string
  | AttributeError string
  | KeyError string
  | IndexError string
  | InvalidId string
  | ConnectionFailure string
  | OperationFailure string
  | OpenAIError string

text \<open>\<^verbatim>\<open>str(e)\<close> of an exception: its message.\<close>

fun exn_text :: "py_exn \<Rightarrow> string" where
  "exn_text (ToolException m) = m"
| "exn_text (HTTPException c m) = m"
| "exn_text (RuntimeError m) = m"
| "exn_text (ValueError m) = m"
| "exn_text (TypeError m) = m"
| "exn_text (AttributeError m) = m"
| "exn_text (KeyError m) = m"
| "exn_text (IndexError m) = m"
| "exn_text (InvalidId m) = m"
| "exn_text (ConnectionFailure m) = m"
| "exn_text (OperationFailure m) = m"
| "exn_text (OpenAIError m) = m"

text \<open>The name of a value's type, as Python's messages print it.\<close>

fun type_name :: "pyval \<Rightarrow> string" where
  "type_name PNone = ''NoneType''"
| "type_name (PBool b) = ''bool''"
| "type_name (PInt i) = ''int''"
| "type_name (PStr s) = ''str''"
| "type_name (POid h) = ''ObjectId''"
| "type_name (PDate t) = ''datetime.datetime''"
| "type_name (PList xs) = ''list''"
| "type_name (PDict d) = ''dict''"

definition quoted :: "string \<Rightarrow> string" where
  "quoted s = [CHR 0x27] @ s @ [CHR 0x27]"

definition no_attribute :: "pyval \<Rightarrow> string \<Rightarrow> py_exn" where
  "no_attribute v attr =
     AttributeError (quoted (type_name v) @ '' object has no attribute '' @ quoted attr)"

text \<open>\<^verbatim>\<open>d[k] = v\<close>: an existing key keeps its position, a new key goes to the end.\<close>

fun dict_set :: "string \<Rightarrow> pyval \<Rightarrow> pydict \<Rightarrow> pydict" where
  "dict_set k v [] = [(k, v)]"
| "dict_set k v ((k', v') # d) = (if k' = k then (k, v) # d else (k', v') # dict_set k v d)"

text \<open>\<^verbatim>\<open>base.update(extra)\<close>: the entries of \<^verbatim>\<open>extra\<close> are stored one by one.\<close>

fun dict_update :: "pydict \<Rightarrow> pydict \<Rightarrow> pydict" where
  "dict_update base [] = base"
| "dict_update base ((k, v) # extra) = dict_update (dict_set k v base) extra"

definition dict_get :: "pydict \<Rightarrow> string \<Rightarrow> pyval option" where
  "dict_get d k = map_of d k"

text \<open>Python truthiness of a value (\<^verbatim>\<open>if x:\<close>, \<^verbatim>\<open>not x\<close>, \<^verbatim>\<open>x or y\<close>).\<close>

fun truthy :: "pyval \<Rightarrow> bool" where
  "truthy PNone = False"
| "truthy (PBool b) = b"
| "truthy (PInt i) = (i \<noteq> 0)"
| "truthy (PStr s) = (s \<noteq> [])"
| "truthy (POid h) = True"
| "truthy (PDate t) = True"
| "truthy (PList xs) = (xs \<noteq> [])"
| "truthy (PDict d) = (d \<noteq> [])"

text \<open>The first exception of a list of results, or all the values.\<close>

fun sequence :: "(py_exn + 'a) list \<Rightarrow> py_exn + 'a list" where
  "sequence [] = Inr []"
| "sequence (Inl e # rs) = Inl e"
| "sequence (Inr x # rs) = (case sequence rs of Inl e \<Rightarrow> Inl e | Inr xs \<Rightarrow> Inr (x # xs))"

section \<open>Case-insensitive injection (\<^verbatim>\<open>tools/tool_base.py\<close>)\<close>

text \<open>
  \<^verbatim>\<open>re.escape\<close> of the Python standard library: each of the characters
  \<^verbatim>\<open>()[]{}?*+-|^$\.&~#\<close>, the space and the white-space controls gets a backslash.
\<close>

definition special_chars :: "char list" where
  "special_chars =
     ''()[]{}?*+-|^$'' @ [CHR 0x5C] @ ''.&~# '' @ [CHR 0x09, CHR 0x0A, CHR 0x0D, CHR 0x0B, CHR 0x0C]"

definition re_escape :: "string \<Rightarrow> string" where
  "re_escape s = concat (map (\<lambda>c. if c \<in> set special_chars then [CHR 0x5C, c] else [c]) s)"

fun is_container :: "pyval \<Rightarrow> bool" where
  "is_container (PDict d) = True"
| "is_container (PList xs) = True"
| "is_container v = False"

definition startswith_dollar :: "string \<Rightarrow> bool" where
  "startswith_dollar k = (case k of [] \<Rightarrow> False | c # cs \<Rightarrow> c = CHR ''$'')"

definition ci_regex :: "string \<Rightarrow> pyval" where
  "ci_regex s = PDict [(''$regex'', PStr (re_escape s)), (''$options'', PStr ''i'')]"

fun inject_case_insensitive :: "pyval \<Rightarrow> pyval" where
  "inject_case_insensitive (PDict kvs) =
     PDict (map (\<lambda>(k, v). if startswith_dollar k \<and> is_container v then (k, v)
                           else (k, inject_case_insensitive v)) kvs)"
| "inject_case_insensitive (PList xs) = PList (map inject_case_insensitive xs)"
| "inject_case_insensitive (PStr s) = ci_regex s"
| "inject_case_insensitive v = v"

section \<open>Un-wrapping in \<^verbatim>\<open>find\<close> (\<^verbatim>\<open>tools/find.py\<close>)\<close>

text \<open>
  \<^verbatim>\<open>re.fullmatch(r"^\^(.*)\$$", s)\<close>: the whole of \<^verbatim>\<open>s\<close> is a caret, a group
  without newline, and a dollar; the result is the group.
\<close>

definition fullmatch_anchored :: "string \<Rightarrow> string option" where
  "fullmatch_anchored s =
     (if 2 \<le> length s \<and> hd s = CHR ''^'' \<and> last s = CHR ''$''
         \<and> CHR 0x0A \<notin> set (butlast (tl s))
      then Some (butlast (tl s)) else None)"

text \<open>
  A value \<^verbatim>\<open>{"$regex": r, "$options": "i"}\<close> whose \<^verbatim>\<open>r\<close> is not a string makes
  \<^verbatim>\<open>re.fullmatch\<close> raise \<^verbatim>\<open>TypeError\<close>.
\<close>

fun unwrap_ci_regex :: "pyval \<Rightarrow> py_exn + pyval" where
  "unwrap_ci_regex (PList xs) =
     (case sequence (map unwrap_ci_regex xs) of Inl e \<Rightarrow> Inl e | Inr ys \<Rightarrow> Inr (PList ys))"
| "unwrap_ci_regex (PDict kvs) =
     (let recurse =
        (case sequence (map (\<lambda>(k, v). case unwrap_ci_regex v of
                                          Inl e \<Rightarrow> Inl e | Inr v' \<Rightarrow> Inr (k, v')) kvs) of
           Inl e \<Rightarrow> Inl e | Inr kvs' \<Rightarrow> Inr (PDict kvs'))
      in if set (map fst kvs) = {''$regex'', ''$options''}
            \<and> map_of kvs ''$options'' = Some (PStr ''i'')
         then (case map_of kvs ''$regex'' of
                 Some (PStr r) \<Rightarrow>
                   (case fullmatch_anchored r of Some g \<Rightarrow> Inr (PStr g) | None \<Rightarrow> recurse)
               | _ \<Rightarrow> Inl (TypeError ''expected string or bytes-like object''))
         else recurse)"
| "unwrap_ci_regex v = Inr v"

section \<open>Paths into a value\<close>

text \<open>
  A position inside a filter is a path of dictionary keys and list indices; the
  properties of the injection are stated position by position.
\<close>

datatype step = Key string | Idx nat




section \<open>Telemetry (\<^verbatim>\<open>src/telemetry.py\<close>)\<close>

text \<open>
  The redaction pattern is
  \<^verbatim>\<open>("(?:(?:password|pwd|...|privateKey))"\s*:\s*)"([^"]+)"\<close> with \<^verbatim>\<open>re.IGNORECASE\<close>.
  A match starts at a double quote, continues with one of the keys in any letter case,
  a double quote, white space, a colon, white space, and a quoted non-empty value
  without double quote. Every repetition of the pattern is followed by a character
  outside its class, so the greedy choice is the only one. Characters are code points
  below 256.
\<close>

definition SENSITIVE_KEYS :: "string list" where
  "SENSITIVE_KEYS =
     [''password'', ''pwd'', ''secret'', ''apiKey'', ''accessToken'',
      ''authorization'', ''clientSecret'', ''privateKey'']"

definition dquote :: char where
  "dquote = CHR 0x22"

definition is_space :: "char \<Rightarrow> bool" where
  "is_space c = (let n = (of_char c :: nat) in
     (9 \<le> n \<and> n \<le> 13) \<or> (28 \<le> n \<and> n \<le> 32) \<or> n = 133 \<or> n = 160)"

definition lower_char :: "char \<Rightarrow> char" where
  "lower_char c = (let n = (of_char c :: nat) in
     if 65 \<le> n \<and> n \<le> 90 then char_of (n + 32) else c)"

fun ci_prefix :: "string \<Rightarrow> string \<Rightarrow> string option" where
  "ci_prefix [] s = Some s"
| "ci_prefix (k # ks) [] = None"
| "ci_prefix (k # ks) (c # cs) =
     (if lower_char k = lower_char c then ci_prefix ks cs else None)"

text \<open>
  The part of the pattern after the key; the result is the length of what belongs to
  group 1 and the length of the whole.
\<close>

definition match_tail :: "string \<Rightarrow> (nat \<times> nat) option" where
  "match_tail s =
     (case s of
        [] \<Rightarrow> None
      | q1 # s1 \<Rightarrow>
          if q1 \<noteq> dquote then None
          else (let ws1 = takeWhile is_space s1 in
            case dropWhile is_space s1 of
              [] \<Rightarrow> None
            | c # s2 \<Rightarrow>
                if c \<noteq> CHR '':'' then None
                else (let ws2 = takeWhile is_space s2 in
                  case dropWhile is_space s2 of
                    [] \<Rightarrow> None
                  | q2 # s3 \<Rightarrow>
                      if q2 \<noteq> dquote then None
                      else (let val = takeWhile (\<lambda>x. x \<noteq> dquote) s3 in
                        if val \<noteq> [] \<and> dropWhile (\<lambda>x. x \<noteq> dquote) s3 \<noteq> []
                        then Some (2 + length ws1 + length ws2,
                                   4 + length ws1 + length ws2 + length val)
                        else None))))"

fun match_keys :: "string list \<Rightarrow> string \<Rightarrow> (nat \<times> nat) option" where
  "match_keys [] s = None"
| "match_keys (k # ks) s =
     (case ci_prefix k s of
        None \<Rightarrow> match_keys ks s
      | Some rest \<Rightarrow>
          (case match_tail rest of
             None \<Rightarrow> match_keys ks s
           | Some (g, n) \<Rightarrow> Some (length k + g, length k + n)))"

definition match_at :: "string list \<Rightarrow> string \<Rightarrow> (nat \<times> nat) option" where
  "match_at keys s =
     (case s of
        [] \<Rightarrow> None
      | q # s1 \<Rightarrow>
          if q \<noteq> dquote then None
          else (case match_keys keys s1 of
                  None \<Rightarrow> None
                | Some (g, n) \<Rightarrow> Some (Suc g, Suc n)))"

text \<open>
  \<^verbatim>\<open>_RE.sub(r'\1"<REDACTED>"', v)\<close>: the matches are found from left to right, the
  search going on after each match. The first argument counts the characters that
  the last match still covers.
\<close>

fun sub_from :: "string list \<Rightarrow> nat \<Rightarrow> string \<Rightarrow> string" where
  "sub_from keys n [] = []"
| "sub_from keys (Suc n) (c # cs) = sub_from keys n cs"
| "sub_from keys 0 (c # cs) =
     (case match_at keys (c # cs) of
        None \<Rightarrow> c # sub_from keys 0 cs
      | Some (g, n) \<Rightarrow>
          take g (c # cs) @ [dquote] @ ''<REDACTED>'' @ [dquote] @ sub_from keys (n - 1) cs)"

definition re_sub_redact :: "string \<Rightarrow> string" where
  "re_sub_redact v = sub_from SENSITIVE_KEYS 0 v"

fun redact_val :: "pyval \<Rightarrow> pyval" where
  "redact_val (PStr v) = PStr (re_sub_redact v)"
| "redact_val (PDict d) = PDict (map (\<lambda>(k, vv). (k, redact_val vv)) d)"
| "redact_val (PList xs) = PList (map redact_val xs)"
| "redact_val v = v"

definition redact_dict :: "pydict \<Rightarrow> pydict" where
  "redact_dict d = map (\<lambda>(k, v). (k, redact_val v)) d"

record telemetry_event =
  ev_command :: string
  ev_durationMs :: int
  ev_success :: bool
  ev_timestamp :: int
  ev_arguments :: "pydict option"
  ev_metadata :: "pydict option"

text \<open>
  The buffer is a \<^verbatim>\<open>cachetools.LRUCache\<close> keyed by the insertion index; it is read
  only as a whole, so its order of use is its order of insertion.
\<close>

record telemetry =
  tel_enabled :: bool
  tel_maxsize :: int
  tel_cache :: "(nat \<times> telemetry_event) list"
  tel_next_idx :: nat

text \<open>What \<^verbatim>\<open>time.time()\<close> and \<^verbatim>\<open>platform\<close> answer is an input of the model.\<close>

record clock =
  clk_now_ms :: int
  clk_duration_ms :: int
  clk_platform :: pydict

definition new_telemetry :: "bool \<Rightarrow> int \<Rightarrow> telemetry" where
  "new_telemetry en m = \<lparr>tel_enabled = en, tel_maxsize = m, tel_cache = [], tel_next_idx = 0\<rparr>"

text \<open>
  \<^verbatim>\<open>LRUCache.__setitem__\<close> with a new key: an item larger than the cache is refused,
  and the least recently used items leave until the new one fits.
\<close>

definition cache_setitem ::
  "int \<Rightarrow> nat \<Rightarrow> telemetry_event \<Rightarrow> (nat \<times> telemetry_event) list
     \<Rightarrow> py_exn + (nat \<times> telemetry_event) list" where
  "cache_setitem m k v c =
     (if 1 > m then Inl (ValueError ''value too large'')
      else Inr (drop (nat (int (length c) + 1 - m)) c @ [(k, v)]))"

definition make_event :: "clock \<Rightarrow> string \<Rightarrow> int \<Rightarrow> bool \<Rightarrow> pydict option \<Rightarrow> telemetry_event" where
  "make_event clk command duration_ms success arguments =
     \<lparr>ev_command = command, ev_durationMs = duration_ms, ev_success = success,
      ev_timestamp = clk_now_ms clk,
      ev_arguments = (case arguments of
                        None \<Rightarrow> None
                      | Some a \<Rightarrow> if a \<noteq> [] then Some (redact_dict a) else None),
      ev_metadata = (if command = ''server_start'' then Some (clk_platform clk) else None)\<rparr>"

definition telemetry_record ::
  "clock \<Rightarrow> string \<Rightarrow> int \<Rightarrow> bool \<Rightarrow> pydict option \<Rightarrow> telemetry \<Rightarrow> py_exn + telemetry" where
  "telemetry_record clk command duration_ms success arguments t =
     (if \<not> tel_enabled t then Inr t
      else
        let event = make_event clk command duration_ms success arguments in
        if int (length (tel_cache t)) \<ge> tel_maxsize t \<and> tel_cache t = []
        then Inl (ValueError ''min() arg is an empty sequence'')
        else
          let c1 = (if int (length (tel_cache t)) \<ge> tel_maxsize t
                    then (let oldest = Min (set (map fst (tel_cache t)))
                          in filter (\<lambda>(i, e). i \<noteq> oldest) (tel_cache t))
                    else tel_cache t)
          in (case cache_setitem (tel_maxsize t) (tel_next_idx t) event c1 of
                Inl e \<Rightarrow> Inl e
              | Inr c2 \<Rightarrow> Inr (t\<lparr>tel_cache := c2, tel_next_idx := Suc (tel_next_idx t)\<rparr>)))"

text \<open>A sequence of \<^verbatim>\<open>record\<close> calls; a call that raises leaves the buffer as it was.\<close>

type_synonym record_call = "string \<times> int \<times> bool \<times> pydict option"

fun record_all :: "clock \<Rightarrow> record_call list \<Rightarrow> telemetry \<Rightarrow> telemetry" where
  "record_all clk [] t = t"
| "record_all clk ((command, duration_ms, success, arguments) # calls) t =
     (case telemetry_record clk command duration_ms success arguments t of
        Inl e \<Rightarrow> record_all clk calls t
      | Inr t' \<Rightarrow> record_all clk calls t')"

section \<open>Tenant filter (\<^verbatim>\<open>utils/company_id.py\<close>)\<close>

text \<open>
  \<^verbatim>\<open>bson.ObjectId(x)\<close> is called with a string (the \<^verbatim>\<open>company_id\<close> of a request)
  or with an ObjectId (the session's tenant). A string is accepted when it has 24
  characters that \<^verbatim>\<open>bytes.fromhex\<close> accepts: pairs of hexadecimal digits, with
  ASCII white space skipped between the pairs. The ObjectId is kept as \<^verbatim>\<open>str\<close> prints
  it, the lower-case hexadecimal digits of its bytes.
\<close>

datatype oid_source = OfStr string | OfOid string

definition is_hex :: "char \<Rightarrow> bool" where
  "is_hex c = (let n = (of_char c :: nat) in
     (48 \<le> n \<and> n \<le> 57) \<or> (65 \<le> n \<and> n \<le> 70) \<or> (97 \<le> n \<and> n \<le> 102))"

definition py_isspace :: "char \<Rightarrow> bool" where
  "py_isspace c = (let n = (of_char c :: nat) in (9 \<le> n \<and> n \<le> 13) \<or> n = 32)"

fun fromhex :: "string \<Rightarrow> string option" where
  "fromhex [] = Some []"
| "fromhex [c] = (if py_isspace c then Some [] else None)"
| "fromhex (c # d # cs) =
     (if py_isspace c then fromhex (d # cs)
      else if is_hex c \<and> is_hex d
      then map_option (\<lambda>r. lower_char c # lower_char d # r) (fromhex cs)
      else None)"

fun object_id :: "oid_source \<Rightarrow> py_exn + string" where
  "object_id (OfOid h) = Inr h"
| "object_id (OfStr s) =
     (if length s = 24
      then (case fromhex s of Some h \<Rightarrow> Inr h | None \<Rightarrow> Inl (InvalidId s))
      else Inl (InvalidId s))"

definition make_company_filter :: "pyval \<Rightarrow> oid_source \<Rightarrow> pyval \<Rightarrow> py_exn + pydict" where
  "make_company_filter collection_name company_id extra_filter =
     (case collection_name of
        PStr name \<Rightarrow>
          (if extra_filter \<noteq> PNone \<and> (case extra_filter of PDict d \<Rightarrow> False | _ \<Rightarrow> True)
           then Inl (HTTPException 400 ''extra_filter must be a dict'')
           else
             (case object_id company_id of
                Inl (InvalidId x) \<Rightarrow> Inl (HTTPException 400 ''Invalid company_id'')
              | Inl (TypeError x) \<Rightarrow> Inl (HTTPException 400 ''Invalid company_id'')
              | Inl e \<Rightarrow> Inl (HTTPException 500 ''Internal server error'')
              | Inr obj_id \<Rightarrow>
                  (let base = (if name = ''companies'' then [(''_id'', POid obj_id)]
                               else [(''company'', POid obj_id)])
                   in Inr (if truthy extra_filter
                           then (case extra_filter of PDict d \<Rightarrow> dict_update base d | _ \<Rightarrow> base)
                           else base))))
      | _ \<Rightarrow> Inl (HTTPException 400 ''collection_name must be a string''))"

section \<open>Configuration, session and database\<close>

record config =
  cfg_db_name :: string
  cfg_allowed_collections :: "string list option"
  cfg_non_tenant_collections :: "string list"

text \<open>
  Every operation sent to MongoDB is written to a log, so that what a tool call
  executes can be read off; the answers of the database are an input of the model.
\<close>

datatype db_call =
    CountDocuments string string pydict
  | FindDocuments string string pydict "pydict option" "(string \<times> int) list option" int int
  | Aggregate string string "pydict list" bool
  | ListCollectionNames string

record database =
  db_count :: "string \<Rightarrow> string \<Rightarrow> pydict \<Rightarrow> py_exn + int"
  db_find :: "string \<Rightarrow> string \<Rightarrow> pydict \<Rightarrow> pydict option \<Rightarrow> (string \<times> int) list option
                \<Rightarrow> int \<Rightarrow> int \<Rightarrow> py_exn + pyval list"
  db_aggregate :: "string \<Rightarrow> string \<Rightarrow> pydict list \<Rightarrow> bool \<Rightarrow> py_exn + pyval list"
  db_list_collection_names :: "string \<Rightarrow> py_exn + string list"

text \<open>The state of the host: the session's tenant, the telemetry buffer, the database log.\<close>

record host =
  h_company_id :: "string option"
  h_telemetry :: telemetry
  h_db_log :: "db_call list"

section \<open>Tool arguments (the pydantic models of \<^verbatim>\<open>tools/\<close>)\<close>

record count_args =
  cnt_database :: "string option"
  cnt_collection :: string
  cnt_filter :: pydict

record find_args =
  fnd_database :: "string option"
  fnd_collection :: "string option"
  fnd_filter :: pydict
  fnd_projection :: "pydict option"
  fnd_sort :: "(string \<times> int) list option"
  fnd_skip :: int
  fnd_limit :: int
  fnd_stopAfterFirst :: bool

datatype group_by = GroupStr string | GroupList "string list"

record aggregate_args =
  agg_database :: "string option"
  agg_collection :: string
  agg_pipeline :: "pydict list option"
  agg_groupBy :: "group_by option"
  agg_statField :: "string option"
  agg_statOp :: "string option"
  agg_filter :: "pydict option"
  agg_sortBy :: "string option"
  agg_sortDir :: "string option"
  agg_limit :: "int option"
  agg_allowDiskUse :: bool

record schema_args =
  sch_collection :: string
  sch_maxValues :: int

record search_args =
  sr_term :: string
  sr_fuzzy_threshold :: "int option"

datatype tool_args =
    CountArgs count_args
  | FindArgs find_args
  | AggregateArgs aggregate_args
  | ListCollectionsArgs "string option"
  | CollectionSchemaArgs schema_args
  | SearchArgs search_args

fun tool_name :: "tool_args \<Rightarrow> string" where
  "tool_name (CountArgs a) = ''count''"
| "tool_name (FindArgs a) = ''find''"
| "tool_name (AggregateArgs a) = ''aggregate''"
| "tool_name (ListCollectionsArgs d) = ''list_collections''"
| "tool_name (CollectionSchemaArgs a) = ''collection_schema''"
| "tool_name (SearchArgs a) = ''search''"

text \<open>
  \<^verbatim>\<open>hasattr\<close>, \<^verbatim>\<open>getattr\<close> and \<^verbatim>\<open>setattr\<close> on a validated model: the outer
  \<open>None\<close> says that the model has no such field.
\<close>

fun arg_collection :: "tool_args \<Rightarrow> string option option" where
  "arg_collection (CountArgs a) = Some (Some (cnt_collection a))"
| "arg_collection (FindArgs a) = Some (fnd_collection a)"
| "arg_collection (AggregateArgs a) = Some (Some (agg_collection a))"
| "arg_collection (ListCollectionsArgs d) = None"
| "arg_collection (CollectionSchemaArgs a) = Some (Some (sch_collection a))"
| "arg_collection (SearchArgs a) = None"

fun arg_filter :: "tool_args \<Rightarrow> pydict option option" where
  "arg_filter (CountArgs a) = Some (Some (cnt_filter a))"
| "arg_filter (FindArgs a) = Some (Some (fnd_filter a))"
| "arg_filter (AggregateArgs a) = Some (agg_filter a)"
| "arg_filter (ListCollectionsArgs d) = None"
| "arg_filter (CollectionSchemaArgs a) = None"
| "arg_filter (SearchArgs a) = None"

fun set_filter :: "pydict \<Rightarrow> tool_args \<Rightarrow> tool_args" where
  "set_filter f (CountArgs a) = CountArgs (a\<lparr>cnt_filter := f\<rparr>)"
| "set_filter f (FindArgs a) = FindArgs (a\<lparr>fnd_filter := f\<rparr>)"
| "set_filter f (AggregateArgs a) = AggregateArgs (a\<lparr>agg_filter := Some f\<rparr>)"
| "set_filter f a = a"

fun arg_pipeline :: "tool_args \<Rightarrow> pydict list option option" where
  "arg_pipeline (AggregateArgs a) = Some (agg_pipeline a)"
| "arg_pipeline a = None"

fun set_pipeline :: "pydict list \<Rightarrow> tool_args \<Rightarrow> tool_args" where
  "set_pipeline p (AggregateArgs a) = AggregateArgs (a\<lparr>agg_pipeline := Some p\<rparr>)"
| "set_pipeline p a = a"

fun has_database :: "string \<Rightarrow> bool" where
  "has_database name = (name \<in> {''count'', ''find'', ''aggregate'', ''list_collections''})"

text \<open>\<^verbatim>\<open>validated.dict()\<close>, the arguments handed to the telemetry.\<close>

definition opt_str :: "string option \<Rightarrow> pyval" where
  "opt_str x = (case x of None \<Rightarrow> PNone | Some s \<Rightarrow> PStr s)"

definition opt_dict :: "pydict option \<Rightarrow> pyval" where
  "opt_dict x = (case x of None \<Rightarrow> PNone | Some d \<Rightarrow> PDict d)"

fun args_dict :: "tool_args \<Rightarrow> pydict" where
  "args_dict (CountArgs a) =
     [(''database'', opt_str (cnt_database a)), (''collection'', PStr (cnt_collection a)),
      (''filter'', PDict (cnt_filter a))]"
| "args_dict (FindArgs a) =
     [(''database'', opt_str (fnd_database a)), (''collection'', opt_str (fnd_collection a)),
      (''filter'', PDict (fnd_filter a)), (''projection'', opt_dict (fnd_projection a)),
      (''sort'', (case fnd_sort a of None \<Rightarrow> PNone
                  | Some s \<Rightarrow> PDict (map (\<lambda>(k, d). (k, PInt d)) s))),
      (''skip'', PInt (fnd_skip a)), (''limit'', PInt (fnd_limit a)),
      (''stopAfterFirst'', PBool (fnd_stopAfterFirst a))]"
| "args_dict (AggregateArgs a) =
     [(''database'', opt_str (agg_database a)), (''collection'', PStr (agg_collection a)),
      (''pipeline'', (case agg_pipeline a of None \<Rightarrow> PNone | Some p \<Rightarrow> PList (map PDict p))),
      (''groupBy'', (case agg_groupBy a of None \<Rightarrow> PNone | Some (GroupStr g) \<Rightarrow> PStr g
                     | Some (GroupList gs) \<Rightarrow> PList (map PStr gs))),
      (''statField'', opt_str (agg_statField a)), (''statOp'', opt_str (agg_statOp a)),
      (''filter'', opt_dict (agg_filter a)), (''sortBy'', opt_str (agg_sortBy a)),
      (''sortDir'', opt_str (agg_sortDir a)),
      (''limit'', (case agg_limit a of None \<Rightarrow> PNone | Some n \<Rightarrow> PInt n)),
      (''allowDiskUse'', PBool (agg_allowDiskUse a))]"
| "args_dict (ListCollectionsArgs d) = [(''database'', opt_str d)]"
| "args_dict (CollectionSchemaArgs a) =
     [(''collection'', PStr (sch_collection a)), (''maxValues'', PInt (sch_maxValues a))]"
| "args_dict (SearchArgs a) =
     [(''term'', PStr (sr_term a)),
      (''fuzzy_threshold'', (case sr_fuzzy_threshold a of None \<Rightarrow> PNone | Some n \<Rightarrow> PInt n))]"

section \<open>Validators of the argument models\<close>

text \<open>
  The type checks and coercions of pydantic are an input of the model (see
  \<open>pydantic\<close> below); the validators that the repository declares on the models
  are the functions of this section. Each answers the message of the first violation
  (pydantic's framing of the message is left out).
\<close>

definition name_char :: "char \<Rightarrow> bool" where
  "name_char c = (let n = (of_char c :: nat) in
     (48 \<le> n \<and> n \<le> 57) \<or> (65 \<le> n \<and> n \<le> 90) \<or> (97 \<le> n \<and> n \<le> 122)
     \<or> c = CHR ''_'' \<or> c = CHR 0x5C \<or> c = CHR ''-'')"

text \<open>
  \<^verbatim>\<open>_NAME_RE.match(v)\<close> with the pattern \<^verbatim>\<open>^[A-Za-z0-9_\\-]{1,64}$\<close>; the dollar also
  matches before a final newline.
\<close>

definition name_re_match :: "string \<Rightarrow> bool" where
  "name_re_match v =
     (let core = (if v \<noteq> [] \<and> last v = CHR 0x0A then butlast v else v)
      in 1 \<le> length core \<and> length core \<le> 64 \<and> list_all name_char core)"

definition validate_name :: "string option \<Rightarrow> string option" where
  "validate_name v =
     (case v of
        None \<Rightarrow> None
      | Some n \<Rightarrow>
          if n \<noteq> [] \<and> \<not> name_re_match n
          then Some (''Name '' @ quoted n @ '' must match pattern ^[A-Za-z0-9_''
                     @ [CHR 0x5C, CHR 0x5C] @ ''-]{1,64}$'')
          else None)"

definition first_violation :: "string option list \<Rightarrow> string option" where
  "first_violation vs = (case filter (\<lambda>v. v \<noteq> None) vs of [] \<Rightarrow> None | v # rest \<Rightarrow> v)"

definition validate_find :: "find_args \<Rightarrow> string option" where
  "validate_find a = first_violation
     [validate_name (fnd_database a),
      validate_name (fnd_collection a),
      (case fnd_sort a of
         None \<Rightarrow> None
       | Some s \<Rightarrow>
           (case filter (\<lambda>(k, d). d \<noteq> 1 \<and> d \<noteq> - 1) s of
              [] \<Rightarrow> None
            | (k, d) # rest \<Rightarrow> Some (''sort value for '' @ quoted k @ '' must be 1 or -1''))),
      (if 0 \<le> fnd_skip a \<and> fnd_skip a \<le> 10000 then None
       else Some ''skip must be between 0 and 10000''),
      (if 1 \<le> fnd_limit a \<and> fnd_limit a \<le> 1000 then None
       else Some ''limit must be between 1 and 1000'')]"

definition group_fields :: "group_by \<Rightarrow> string list" where
  "group_fields g = (case g of GroupStr f \<Rightarrow> [f] | GroupList fs \<Rightarrow> fs)"

definition truthy_str :: "string option \<Rightarrow> bool" where
  "truthy_str x = (case x of None \<Rightarrow> False | Some s \<Rightarrow> s \<noteq> [])"

definition truthy_group :: "group_by option \<Rightarrow> bool" where
  "truthy_group x =
     (case x of None \<Rightarrow> False | Some (GroupStr f) \<Rightarrow> f \<noteq> [] | Some (GroupList fs) \<Rightarrow> fs \<noteq> [])"

definition truthy_pipeline :: "pydict list option \<Rightarrow> bool" where
  "truthy_pipeline x = (case x of None \<Rightarrow> False | Some p \<Rightarrow> p \<noteq> [])"

definition require_one_logic :: "aggregate_args \<Rightarrow> string option" where
  "require_one_logic a =
     (if \<not> (truthy_pipeline (agg_pipeline a) \<or> truthy_group (agg_groupBy a)
             \<or> truthy_str (agg_statField a))
      then Some (''Must provide at least one of '' @ quoted ''pipeline'' @ '', ''
                 @ quoted ''groupBy'' @ '' or '' @ quoted ''statField'')
      else None)"

definition validate_aggregate :: "aggregate_args \<Rightarrow> string option" where
  "validate_aggregate a = first_violation
     [(case agg_limit a of
         None \<Rightarrow> None
       | Some n \<Rightarrow> if 1 \<le> n then None else Some ''limit must be at least 1''),
      require_one_logic a]"

fun validate_args :: "tool_args \<Rightarrow> string option" where
  "validate_args (FindArgs a) = validate_find a"
| "validate_args (AggregateArgs a) = validate_aggregate a"
| "validate_args a = None"

section \<open>The tools (\<^verbatim>\<open>tools/*.py\<close>)\<close>

definition as_dict :: "pyval \<Rightarrow> pydict" where
  "as_dict v = (case v of PDict d \<Rightarrow> d | _ \<Rightarrow> [])"

definition dict_of_items :: "(string \<times> pyval) list \<Rightarrow> pydict" where
  "dict_of_items items = dict_update [] items"

definition strip :: "string \<Rightarrow> string" where
  "strip s = rev (dropWhile is_space (rev (dropWhile is_space s)))"

definition lower :: "string \<Rightarrow> string" where
  "lower s = map lower_char s"

definition STATIC_COLLECTIONS :: "string list" where
  "STATIC_COLLECTIONS =
     [''companies'', ''plans'', ''brokers'', ''broker-payments'', ''contracts'',
      ''contractors'', ''contractor-payments'', ''general-expenses'', ''lands'',
      ''projects'', ''properties'', ''property-bookings'', ''property-payments'',
      ''rent-payments'', ''tenants'', ''leads'', ''lead-assignments'', ''lead-rotations'',
      ''lead-visited-properties'', ''lead-notes'', ''amenities'', ''cold-leads'',
      ''lead-visited-properties'']"

text \<open>
  Modelled from the spec: the table \<^verbatim>\<open>SCHEMAS\<close> of \<^verbatim>\<open>src/db_schema.py\<close> is not among
  the sources. It is a parameter: per collection, the mapping of field names to type
  labels and, per field, the list of sample values.
\<close>

record schema =
  sc_fields :: pydict
  sc_values :: "(string \<times> pyval list) list"

text \<open>
  What pydantic makes of the raw arguments of each tool: the message of its
  \<^verbatim>\<open>ValidationError\<close>, or the typed arguments.
\<close>

record pydantic =
  parse_count :: "pydict \<Rightarrow> string + count_args"
  parse_find :: "pydict \<Rightarrow> string + find_args"
  parse_aggregate :: "pydict \<Rightarrow> string + aggregate_args"
  parse_list_collections :: "pydict \<Rightarrow> string + string option"
  parse_collection_schema :: "pydict \<Rightarrow> string + schema_args"
  parse_search :: "pydict \<Rightarrow> string + search_args"

text \<open>
  The environment of a tool call: the configuration, the clock, the database, the
  schema table, \<^verbatim>\<open>dateutil\<close>'s \<^verbatim>\<open>isoparse\<close> (the datetime of a string, if it is one),
  pydantic, and the answer of the \<^verbatim>\<open>search\<close> tool for the session's tenant (its
  text and fuzzy scans of the collections are not itemised in the database log).
\<close>

record env =
  env_config :: config
  env_clock :: clock
  env_db :: database
  env_schemas :: "(string \<times> schema) list"
  env_isoparse :: "string \<Rightarrow> string option"
  env_parse :: pydantic
  env_search :: "search_args \<Rightarrow> string option \<Rightarrow> py_exn + pyval"

definition log_call :: "db_call \<Rightarrow> host \<Rightarrow> host" where
  "log_call c h = h\<lparr>h_db_log := h_db_log h @ [c]\<rparr>"

definition db_name_of :: "env \<Rightarrow> string option \<Rightarrow> string" where
  "db_name_of e database =
     (case database of
        None \<Rightarrow> cfg_db_name (env_config e)
      | Some d \<Rightarrow> if d \<noteq> [] then d else cfg_db_name (env_config e))"

subsection \<open>\<^verbatim>\<open>list_collections\<close>, \<^verbatim>\<open>collection_schema\<close>, \<^verbatim>\<open>count\<close>\<close>

definition list_collections_execute :: "py_exn + pyval" where
  "list_collections_execute = Inr (PDict [(''result'', PList (map PStr STATIC_COLLECTIONS))])"

definition py_slice_to :: "int \<Rightarrow> 'a list \<Rightarrow> 'a list" where
  "py_slice_to n xs = (if 0 \<le> n then take (nat n) xs else take (length xs - nat (- n)) xs)"

definition collection_schema_execute :: "env \<Rightarrow> schema_args \<Rightarrow> py_exn + pyval" where
  "collection_schema_execute e a =
     (case map_of (env_schemas e) (sch_collection a) of
        None \<Rightarrow> Inl (ToolException (''Unknown collection '' @ quoted (sch_collection a)))
      | Some sc \<Rightarrow>
          Inr (PDict
            [(''fields'', PDict (sc_fields sc)),
             (''values'', PDict (dict_of_items (map (\<lambda>(field, label).
                 (field, PList (py_slice_to (sch_maxValues a)
                    (case map_of (sc_values sc) field of None \<Rightarrow> [] | Some vs \<Rightarrow> vs))))
                 (sc_fields sc))))]))"

definition count_execute :: "env \<Rightarrow> count_args \<Rightarrow> host \<Rightarrow> (py_exn + pyval) \<times> host" where
  "count_execute e a h =
     (let db = db_name_of e (cnt_database a);
          h1 = log_call (CountDocuments db (cnt_collection a) (cnt_filter a)) h
      in case db_count (env_db e) db (cnt_collection a) (cnt_filter a) of
           Inl x \<Rightarrow> (Inl x, h1)
         | Inr n \<Rightarrow> (Inr (PDict [(''result'', PInt n)]), h1))"

subsection \<open>\<^verbatim>\<open>find\<close>\<close>

definition query_collection ::
  "env \<Rightarrow> string \<Rightarrow> string \<Rightarrow> pyval \<Rightarrow> find_args \<Rightarrow> host \<Rightarrow> (py_exn + pyval list) \<times> host" where
  "query_collection e db coll filter_doc a h =
     (case filter_doc of
        PDict f \<Rightarrow>
          (let srt = (case fnd_sort a of None \<Rightarrow> None | Some s \<Rightarrow> if s \<noteq> [] then Some s else None)
           in (db_find (env_db e) db coll f (fnd_projection a) srt (fnd_skip a) (fnd_limit a),
               log_call (FindDocuments db coll f (fnd_projection a) srt (fnd_skip a) (fnd_limit a)) h))
      | _ \<Rightarrow> (Inl (TypeError ''filter must be an instance of dict''), h))"

fun find_loop ::
  "env \<Rightarrow> string \<Rightarrow> pyval \<Rightarrow> find_args \<Rightarrow> string list \<Rightarrow> host \<Rightarrow> (py_exn + pyval list) \<times> host" where
  "find_loop e db filter_doc a [] h = (Inr [], h)"
| "find_loop e db filter_doc a (coll_name # rest) h =
     (case query_collection e db coll_name filter_doc a h of
        (Inl x, h1) \<Rightarrow> (Inl x, h1)
      | (Inr docs, h1) \<Rightarrow>
          if docs \<noteq> [] then
            (let bucket = PDict [(''collection'', PStr coll_name), (''documents'', PList docs),
                                 (''count'', PInt (int (length docs)))]
             in if fnd_stopAfterFirst a then (Inr [bucket], h1)
                else (case find_loop e db filter_doc a rest h1 of
                        (Inl x, h2) \<Rightarrow> (Inl x, h2)
                      | (Inr bs, h2) \<Rightarrow> (Inr (bucket # bs), h2)))
          else find_loop e db filter_doc a rest h1)"

definition MAX_COLLECTIONS_SCAN :: nat where
  "MAX_COLLECTIONS_SCAN = 100"

definition get_collection_whitelist :: "env \<Rightarrow> string \<Rightarrow> host \<Rightarrow> (py_exn + string list) \<times> host" where
  "get_collection_whitelist e db h =
     (case cfg_allowed_collections (env_config e) of
        Some (c # cs) \<Rightarrow> (Inr (c # cs), h)
      | _ \<Rightarrow>
          (case db_list_collection_names (env_db e) db of
             Inl x \<Rightarrow> (Inl (ToolException ''Cannot list collections''),
                        log_call (ListCollectionNames db) h)
           | Inr names \<Rightarrow> (Inr names, log_call (ListCollectionNames db) h)))"

fun find_wrap :: "py_exn \<Rightarrow> py_exn" where
  "find_wrap (ConnectionFailure m) = ToolException (''Database error: '' @ m)"
| "find_wrap (OperationFailure m) = ToolException (''Database error: '' @ m)"
| "find_wrap (ToolException m) = ToolException m"
| "find_wrap x = ToolException ''Internal error in find tool''"

fun doc_count :: "pyval \<Rightarrow> int" where
  "doc_count (PDict b) = (case map_of b ''count'' of Some (PInt n) \<Rightarrow> n | _ \<Rightarrow> 0)"
| "doc_count v = 0"

definition find_execute :: "env \<Rightarrow> find_args \<Rightarrow> host \<Rightarrow> (py_exn + pyval) \<times> host" where
  "find_execute e a h =
     (let db = db_name_of e (fnd_database a)
      in case unwrap_ci_regex (PDict (fnd_filter a)) of
           Inl x \<Rightarrow> (Inl x, h)
         | Inr filter_doc \<Rightarrow>
             (case (case fnd_collection a of
                      Some (c # cs) \<Rightarrow> (Inr [c # cs], h)
                    | _ \<Rightarrow>
                        (case get_collection_whitelist e db h of
                           (Inl x, h1) \<Rightarrow> (Inl x, h1)
                         | (Inr cl, h1) \<Rightarrow> (Inr (take MAX_COLLECTIONS_SCAN cl), h1))) of
                (Inl x, h1) \<Rightarrow> (Inl (find_wrap x), h1)
              | (Inr coll_list, h1) \<Rightarrow>
                  (case find_loop e db filter_doc a coll_list h1 of
                     (Inl x, h2) \<Rightarrow> (Inl (find_wrap x), h2)
                   | (Inr results, h2) \<Rightarrow>
                       (Inr (PDict
                          [(''results'', PList results),
                           (''total_documents'', PInt (sum_list (map doc_count results))),
                           (''collections_scanned'', PList (map PStr coll_list)),
                           (''database'', PStr db),
                           (''duration_ms'', PInt (clk_duration_ms (env_clock e)))]), h2))))"

subsection \<open>\<^verbatim>\<open>aggregate\<close>\<close>

definition normalize_field_name :: "(string \<times> schema) list \<Rightarrow> string \<Rightarrow> string \<Rightarrow> string" where
  "normalize_field_name schemas input_name collection =
     (let fields = (case map_of schemas collection of None \<Rightarrow> [] | Some sc \<Rightarrow> map fst (sc_fields sc));
          key = filter (\<lambda>c. c \<noteq> CHR ''_'') (lower input_name)
      in case find (\<lambda>schema_field. lower schema_field = key) fields of
           Some schema_field \<Rightarrow> schema_field
         | None \<Rightarrow> input_name)"

fun convert_iso_dates :: "(string \<Rightarrow> string option) \<Rightarrow> pyval \<Rightarrow> pyval" where
  "convert_iso_dates isoparse (PDict kvs) =
     PDict (map (\<lambda>(k, v). (k, convert_iso_dates isoparse v)) kvs)"
| "convert_iso_dates isoparse (PList xs) = PList (map (convert_iso_dates isoparse) xs)"
| "convert_iso_dates isoparse (PStr s) =
     (case isoparse s of Some t \<Rightarrow> PDate t | None \<Rightarrow> PStr s)"
| "convert_iso_dates isoparse v = v"

text \<open>
  \<^verbatim>\<open>clean\<close> of \<^verbatim>\<open>_sanitize_pipeline_keys\<close>: the stripped keys are stored one by one,
  so a key that strips to an earlier one overwrites its value.
\<close>

fun clean :: "pyval \<Rightarrow> pyval" where
  "clean (PDict kvs) = PDict (dict_of_items (map (\<lambda>(k, v). (strip k, clean v)) kvs))"
| "clean (PList xs) = PList (map clean xs)"
| "clean v = v"

definition sanitize_pipeline_keys :: "pydict list \<Rightarrow> pydict list" where
  "sanitize_pipeline_keys pl = map (\<lambda>stage. as_dict (clean (PDict stage))) pl"

definition stat_ops :: "string list" where
  "stat_ops = [''avg'', ''sum'', ''min'', ''max'']"

text \<open>The stages that follow the initial \<^verbatim>\<open>$match\<close> (steps 2 to 6 of \<^verbatim>\<open>execute\<close>).\<close>

definition mode_stages :: "(string \<times> schema) list \<Rightarrow> aggregate_args \<Rightarrow> py_exn + pydict list" where
  "mode_stages schemas a =
     (let coll = agg_collection a in
      if truthy_pipeline (agg_pipeline a) then Inr (sanitize_pipeline_keys (the (agg_pipeline a)))
      else if truthy_group (agg_groupBy a) \<and> truthy_str (agg_statField a) \<and> truthy_str (agg_statOp a)
      then
        (let gf = map (\<lambda>f. normalize_field_name schemas f coll) (group_fields (the (agg_groupBy a)));
             sf = normalize_field_name schemas (the (agg_statField a)) coll;
             op = lower (the (agg_statOp a))
         in if op \<notin> set stat_ops
            then Inl (ToolException (''Unsupported statOp '' @ quoted (the (agg_statOp a))))
            else
              (let group_key = (if length gf = 1 then PStr (hd gf)
                                else PDict (dict_of_items (map (\<lambda>f. (f, PStr (''$'' @ f))) gf)));
                   proj = (if length gf = 1
                           then dict_set ''group'' (PStr ''$_id'') [(''_id'', PInt 0), (''stat'', PInt 1)]
                           else dict_update [(''_id'', PInt 0), (''stat'', PInt 1)]
                                  (map (\<lambda>f. (f, PStr (''$_id.'' @ f))) gf))
               in Inr [[(''$group'', PDict [(''_id'', group_key),
                                            (''stat'', PDict [(''$'' @ op, PStr (''$'' @ sf))])])],
                       [(''$project'', PDict proj)]]))
      else if truthy_str (agg_statField a) \<and> truthy_str (agg_statOp a)
      then
        (let sf = normalize_field_name schemas (the (agg_statField a)) coll;
             op = lower (the (agg_statOp a))
         in if op \<notin> set stat_ops
            then Inl (ToolException (''Unsupported statOp '' @ quoted (the (agg_statOp a))))
            else Inr [[(''$group'', PDict [(''_id'', PNone),
                                           (''result'', PDict [(''$'' @ op, PStr (''$'' @ sf))])])],
                      [(''$project'', PDict [(''_id'', PInt 0), (''result'', PInt 1)])]])
      else if truthy_group (agg_groupBy a)
      then
        (let nf = map (\<lambda>f. normalize_field_name schemas f coll) (group_fields (the (agg_groupBy a)));
             gid = (if length nf = 1 then PStr (hd nf)
                    else PDict (dict_of_items (map (\<lambda>f. (f, PStr (''$'' @ f))) nf)));
             group_stage = PDict [(''$group'', PDict [(''_id'', gid),
                                                      (''count'', PDict [(''$sum'', PInt 1)])])];
             project_stage = PDict [(''$project'', PDict
                 (dict_set ''_id'' (PInt 0) (dict_set ''count'' (PInt 1)
                    (if length nf = 1 then [(''field'', PStr ''$_id'')]
                     else dict_of_items (map (\<lambda>f. (f, PStr (''$_id.'' @ f))) nf)))))]
         in Inr [[(''$facet'', PDict [(''total'', PList [PDict [(''$count'', PStr ''total'')]]),
                                      (''byGroup'', PList [group_stage, project_stage])])]])
      else Inr [[(''$count'', PStr ''count'')]])"

text \<open>
  The pipeline that \<^verbatim>\<open>execute\<close> hands to MongoDB (steps 1 to 8). The arguments are
  those that the tool base has already scoped.
\<close>

definition build_pipeline ::
  "(string \<times> schema) list \<Rightarrow> (string \<Rightarrow> string option) \<Rightarrow> string option \<Rightarrow> aggregate_args
     \<Rightarrow> py_exn + pydict list" where
  "build_pipeline schemas isoparse tenant a =
     (let base_filter0 = (case agg_filter a of None \<Rightarrow> [] | Some f \<Rightarrow> f);
          base_filter = (case tenant of
                           None \<Rightarrow> base_filter0
                         | Some t \<Rightarrow> dict_set ''company'' (POid t) base_filter0);
          match_stage = [(''$match'',
                          inject_case_insensitive (convert_iso_dates isoparse (PDict base_filter)))]
      in case mode_stages schemas a of
           Inl x \<Rightarrow> Inl x
         | Inr stages \<Rightarrow>
             (let pipeline = match_stage # stages;
                  is_facet = list_ex (\<lambda>stage. ''$facet'' \<in> set (map fst stage)) pipeline
              in if truthy_str (agg_sortBy a) \<and> \<not> is_facet \<and> agg_sortDir a = None
                 then Inl (no_attribute PNone ''lower'')
                 else
                   (let srt = (if truthy_str (agg_sortBy a) \<and> \<not> is_facet
                               then [[(''$sort'', PDict
                                        [(normalize_field_name schemas (the (agg_sortBy a))
                                            (agg_collection a),
                                          PInt (if lower (the (agg_sortDir a)) = ''desc''
                                                then - 1 else 1))])]]
                               else []);
                        lim = (case agg_limit a of
                                 None \<Rightarrow> []
                               | Some n \<Rightarrow> if n \<noteq> 0 \<and> \<not> is_facet
                                           then [[(''$limit'', PInt n)]] else [])
                    in Inr (sanitize_pipeline_keys (pipeline @ srt @ lim)))))"

definition aggregate_execute :: "env \<Rightarrow> aggregate_args \<Rightarrow> host \<Rightarrow> (py_exn + pyval) \<times> host" where
  "aggregate_execute e a h =
     (let db = db_name_of e (agg_database a)
      in case build_pipeline (env_schemas e) (env_isoparse e) (h_company_id h) a of
           Inl (ToolException m) \<Rightarrow> (Inl (ToolException m), h)
         | Inl x \<Rightarrow> (Inl (ToolException (''Aggregation failed: '' @ exn_text x)), h)
         | Inr pipeline \<Rightarrow>
             (let h1 = log_call (Aggregate db (agg_collection a) pipeline (agg_allowDiskUse a)) h
              in case db_aggregate (env_db e) db (agg_collection a) pipeline (agg_allowDiskUse a) of
                   Inl (ToolException m) \<Rightarrow> (Inl (ToolException m), h1)
                 | Inl x \<Rightarrow> (Inl (ToolException (''Aggregation failed: '' @ exn_text x)), h1)
                 | Inr docs \<Rightarrow> (Inr (PDict [(''result'', PList docs)]), h1)))"

fun execute :: "env \<Rightarrow> tool_args \<Rightarrow> host \<Rightarrow> (py_exn + pyval) \<times> host" where
  "execute e (CountArgs a) h = count_execute e a h"
| "execute e (FindArgs a) h = find_execute e a h"
| "execute e (AggregateArgs a) h = aggregate_execute e a h"
| "execute e (ListCollectionsArgs d) h = (list_collections_execute, h)"
| "execute e (CollectionSchemaArgs a) h = (collection_schema_execute e a, h)"
| "execute e (SearchArgs a) h = (env_search e a (h_company_id h), h)"

section \<open>The tool base (\<^verbatim>\<open>tools/tool_base.py\<close>)\<close>

text \<open>\<^verbatim>\<open>key in x\<close> for a string key: membership in a dict, a list or a string.\<close>

definition py_contains :: "pyval \<Rightarrow> string \<Rightarrow> py_exn + bool" where
  "py_contains x key =
     (case x of
        PDict d \<Rightarrow> Inr (key \<in> set (map fst d))
      | PList xs \<Rightarrow> Inr (PStr key \<in> set xs)
      | PStr s \<Rightarrow> Inr (\<exists>i \<in> set (upt 0 (Suc (length s))). take (length key) (drop i s) = key)
      | _ \<Rightarrow> Inl (TypeError (''argument of type '' @ quoted (type_name x) @ '' is not iterable'')))"

text \<open>Lines 59 to 70 of \<^verbatim>\<open>run\<close>: the tenant scope of the filter.\<close>

definition scope_filter :: "config \<Rightarrow> string \<Rightarrow> tool_args \<Rightarrow> py_exn + tool_args" where
  "scope_filter cfg tenant_id validated =
     (case (arg_filter validated, arg_collection validated) of
        (Some flt, Some coll) \<Rightarrow>
          (let extra = (case flt of None \<Rightarrow> [] | Some f \<Rightarrow> f)
           in if (case coll of None \<Rightarrow> False | Some c \<Rightarrow> c \<in> set (cfg_non_tenant_collections cfg))
              then Inr (set_filter
                          (if extra \<noteq> [] then as_dict (inject_case_insensitive (PDict extra)) else [])
                          validated)
              else
                (case make_company_filter (opt_str coll) (OfOid tenant_id) (PDict extra) of
                   Inl x \<Rightarrow> Inl x
                 | Inr filt \<Rightarrow>
                     Inr (set_filter (as_dict (inject_case_insensitive (PDict filt))) validated)))
      | _ \<Rightarrow> Inr validated)"

text \<open>Lines 72 to 88 of \<^verbatim>\<open>run\<close>: the tenant scope of the pipeline.\<close>

definition scope_pipeline :: "config \<Rightarrow> string \<Rightarrow> tool_args \<Rightarrow> py_exn + tool_args" where
  "scope_pipeline cfg tenant_id validated =
     (case (arg_pipeline validated, arg_collection validated) of
        (Some pl, Some coll) \<Rightarrow>
          (let pipeline = (case pl of None \<Rightarrow> [] | Some p \<Rightarrow> p)
           in if (case coll of None \<Rightarrow> False | Some c \<Rightarrow> c \<in> set (cfg_non_tenant_collections cfg))
              then Inr (set_pipeline pipeline validated)
              else
                (case make_company_filter (opt_str coll) (OfOid tenant_id) PNone of
                   Inl x \<Rightarrow> Inl x
                 | Inr tenant_match \<Rightarrow>
                     (let first_stage = (case pipeline of [] \<Rightarrow> [] | st # rest \<Rightarrow> st)
                      in case (case map_of first_stage ''$match'' of
                                 None \<Rightarrow> Inr False
                               | Some m \<Rightarrow>
                                   (case sequence (map (py_contains m) (map fst tenant_match)) of
                                      Inl x \<Rightarrow> Inl x
                                    | Inr bs \<Rightarrow> Inr (list_ex (\<lambda>b. b) bs))) of
                           Inl x \<Rightarrow> Inl x
                         | Inr keyed \<Rightarrow>
                             Inr (set_pipeline
                                    (if keyed then pipeline
                                     else [(''$match'', PDict tenant_match)] # pipeline)
                                    validated))))
      | _ \<Rightarrow> Inr validated)"

text \<open>
  The telemetry of \<^verbatim>\<open>run\<close> after the tool has answered: a success and a
  \<^verbatim>\<open>ToolException\<close> are recorded with the arguments, any other exception with its
  text, and it leaves as the uniform internal error.
\<close>

definition record_outcome ::
  "env \<Rightarrow> string \<Rightarrow> tool_args \<Rightarrow> (py_exn + pyval) \<times> host \<Rightarrow> (py_exn + pyval) \<times> host" where
  "record_outcome e name validated rh =
     (let h = snd rh;
          dur = clk_duration_ms (env_clock e);
          internal = (\<lambda>x. case telemetry_record (env_clock e) name dur False
                                   (Some [(''error'', PStr (exn_text x))]) (h_telemetry h) of
                             Inl y \<Rightarrow> (Inl y, h)
                           | Inr t \<Rightarrow> (Inl (ToolException (''An internal error occurred in ''
                                                            @ quoted name)),
                                       h\<lparr>h_telemetry := t\<rparr>))
      in case fst rh of
           Inr result \<Rightarrow>
             (case telemetry_record (env_clock e) name dur True (Some (args_dict validated))
                     (h_telemetry h) of
                Inl x \<Rightarrow> internal x
              | Inr t \<Rightarrow> (Inr result, h\<lparr>h_telemetry := t\<rparr>))
         | Inl (ToolException m) \<Rightarrow>
             (case telemetry_record (env_clock e) name dur False (Some (args_dict validated))
                     (h_telemetry h) of
                Inl y \<Rightarrow> (Inl y, h)
              | Inr t \<Rightarrow> (Inl (ToolException m), h\<lparr>h_telemetry := t\<rparr>))
         | Inl x \<Rightarrow> internal x)"

datatype tool =
    CountTool
  | FindTool
  | AggregateTool
  | ListCollectionsTool
  | CollectionSchemaTool
  | SearchTool

fun name_of :: "tool \<Rightarrow> string" where
  "name_of CountTool = ''count''"
| "name_of FindTool = ''find''"
| "name_of AggregateTool = ''aggregate''"
| "name_of ListCollectionsTool = ''list_collections''"
| "name_of CollectionSchemaTool = ''collection_schema''"
| "name_of SearchTool = ''search''"

definition tool_of_name :: "string \<Rightarrow> tool option" where
  "tool_of_name name =
     find (\<lambda>t. name_of t = name)
       [FindTool, CountTool, AggregateTool, CollectionSchemaTool, ListCollectionsTool, SearchTool]"

text \<open>\<^verbatim>\<open>self.Model(**args_dict)\<close>: pydantic's parse, then the declared validators.\<close>

definition model_validate :: "env \<Rightarrow> tool \<Rightarrow> pydict \<Rightarrow> string + tool_args" where
  "model_validate e tk d =
     (case (case tk of
              CountTool \<Rightarrow> map_sum id CountArgs (parse_count (env_parse e) d)
            | FindTool \<Rightarrow> map_sum id FindArgs (parse_find (env_parse e) d)
            | AggregateTool \<Rightarrow> map_sum id AggregateArgs (parse_aggregate (env_parse e) d)
            | ListCollectionsTool \<Rightarrow>
                map_sum id ListCollectionsArgs (parse_list_collections (env_parse e) d)
            | CollectionSchemaTool \<Rightarrow>
                map_sum id CollectionSchemaArgs (parse_collection_schema (env_parse e) d)
            | SearchTool \<Rightarrow> map_sum id SearchArgs (parse_search (env_parse e) d)) of
        Inl msg \<Rightarrow> Inl msg
      | Inr a \<Rightarrow> (case validate_args a of Some msg \<Rightarrow> Inl msg | None \<Rightarrow> Inr a))"

text \<open>Lines 90 to 94 of \<^verbatim>\<open>run\<close>: the collection is named, and the allow-list lacks it.\<close>

definition disallowed :: "config \<Rightarrow> tool_args \<Rightarrow> bool" where
  "disallowed cfg validated =
     (case arg_collection validated of
        Some (Some coll) \<Rightarrow>
          coll \<noteq> [] \<and>
          (case cfg_allowed_collections cfg of
             None \<Rightarrow> False
           | Some allowed \<Rightarrow> allowed \<noteq> [] \<and> coll \<notin> set allowed)
      | _ \<Rightarrow> False)"

fun intercalate :: "string \<Rightarrow> string list \<Rightarrow> string" where
  "intercalate sep [] = []"
| "intercalate sep [x] = x"
| "intercalate sep (x # y # ys) = x @ sep @ intercalate sep (y # ys)"

text \<open>\<^verbatim>\<open>', '.join(whitelist)\<close>: the items of a list, the keys of a dict, the characters of a string.\<close>

definition join_names :: "pyval \<Rightarrow> py_exn + string" where
  "join_names w =
     (case w of
        PList xs \<Rightarrow>
          (if list_all (\<lambda>x. case x of PStr s \<Rightarrow> True | _ \<Rightarrow> False) xs
           then Inr (intercalate '', '' (map (\<lambda>x. case x of PStr s \<Rightarrow> s | _ \<Rightarrow> []) xs))
           else Inl (TypeError ''sequence item: expected str instance''))
      | PDict d \<Rightarrow> Inr (intercalate '', '' (map fst d))
      | PStr s \<Rightarrow> Inr (intercalate '', '' (map (\<lambda>c. [c]) s))
      | _ \<Rightarrow> Inl (TypeError ''can only join an iterable''))"

text \<open>
  Lines 95 to 106 of \<^verbatim>\<open>run\<close>: the exception raised for a disallowed collection,
  from the answer of the nested \<^verbatim>\<open>list_collections\<close> call.
\<close>

definition allow_list_error :: "string \<Rightarrow> pyval \<Rightarrow> py_exn" where
  "allow_list_error coll res =
     (case res of
        PDict d \<Rightarrow>
          (let whitelist = (case map_of d ''collections'' of None \<Rightarrow> PList [] | Some w \<Rightarrow> w)
           in if \<not> truthy whitelist
              then ToolException
                     ''No collections are currently allowed. Check your `allowed_collections` configuration.''
              else (case join_names whitelist of
                      Inl x \<Rightarrow> x
                    | Inr names \<Rightarrow>
                        ToolException (''Collection '' @ quoted coll
                          @ '' not in allowed list. Allowed collections: '' @ names)))
      | _ \<Rightarrow> no_attribute res ''get'')"

text \<open>
  The arguments object once \<^verbatim>\<open>execute\<close> has run, which is what \<^verbatim>\<open>validated.dict()\<close>
  gives to telemetry: \<^verbatim>\<open>AggregateTool.execute\<close> takes \<^verbatim>\<open>base_filter = args.filter or {}\<close>
  and writes the tenant into it, so a non-empty \<^verbatim>\<open>args.filter\<close> is changed in place.
\<close>

definition executed_args :: "host \<Rightarrow> tool_args \<Rightarrow> tool_args" where
  "executed_args h validated =
     (case validated of
        AggregateArgs a \<Rightarrow>
          (case (agg_filter a, h_company_id h) of
             (Some f, Some t) \<Rightarrow>
               if f \<noteq> []
               then AggregateArgs (a\<lparr>agg_filter := Some (dict_set ''company'' (POid t) f)\<rparr>)
               else validated
           | _ \<Rightarrow> validated)
      | _ \<Rightarrow> validated)"

function run :: "env \<Rightarrow> tool \<Rightarrow> pydict \<Rightarrow> host \<Rightarrow> (py_exn + pyval) \<times> host" where
  "run e tk raw_args h =
     (let cfg = env_config e;
          args0 = (if has_database (name_of tk) \<and> ''database'' \<notin> set (map fst raw_args)
                   then raw_args @ [(''database'', PStr (cfg_db_name cfg))] else raw_args)
      in case model_validate e tk args0 of
           Inl msg \<Rightarrow> (Inl (ToolException (''Invalid arguments: '' @ msg)), h)
         | Inr parsed \<Rightarrow>
             (case h_company_id h of
                None \<Rightarrow> (Inl (RuntimeError ''No tenant ID set on session.current_company_id.''), h)
              | Some tenant_id \<Rightarrow>
                  (case scope_filter cfg tenant_id parsed of
                     Inl x \<Rightarrow> (Inl x, h)
                   | Inr scoped \<Rightarrow>
                       (case scope_pipeline cfg tenant_id scoped of
                          Inl x \<Rightarrow> (Inl x, h)
                        | Inr validated \<Rightarrow>
                            if disallowed cfg validated
                            then (case run e ListCollectionsTool [] h of
                                    (Inl x, h1) \<Rightarrow> (Inl x, h1)
                                  | (Inr res, h1) \<Rightarrow>
                                      (Inl (allow_list_error
                                              (the (the (arg_collection validated))) res), h1))
                            else record_outcome e (name_of tk) (executed_args h validated)
                                   (execute e validated h)))))"
  by pat_completeness auto
termination
proof (relation "measure (\<lambda>(e, tk, raw_args, h). if tk = ListCollectionsTool then 0 else 1)")
  show "wf (measure (\<lambda>(e, tk, raw_args, h). if tk = ListCollectionsTool then 0 else (1::nat)))"
    by simp
next
  fix e :: env and tk :: tool and raw_args :: pydict and h :: host
  fix cfg args0 parsed tenant_id scoped validated
  assume "args0 = (if has_database (name_of tk) \<and> ''database'' \<notin> set (map fst raw_args)
                   then raw_args @ [(''database'', PStr (cfg_db_name cfg))] else raw_args)"
    and "model_validate e tk args0 = Inr parsed"
    and "scope_filter cfg tenant_id parsed = Inr scoped"
    and "scope_pipeline cfg tenant_id scoped = Inr validated"
    and "disallowed cfg validated"
  then have "tk \<noteq> ListCollectionsTool"
  proof (cases "parse_list_collections (env_parse e) args0")
    case (Inl msg)
    assume "model_validate e tk args0 = Inr parsed"
    with Inl show ?thesis by (auto simp: model_validate_def)
  next
    case (Inr d)
    assume v: "model_validate e tk args0 = Inr parsed"
      and f: "scope_filter cfg tenant_id parsed = Inr scoped"
      and p: "scope_pipeline cfg tenant_id scoped = Inr validated"
      and d: "disallowed cfg validated"
    show ?thesis
    proof
      assume "tk = ListCollectionsTool"
      with v Inr have "parsed = ListCollectionsArgs d"
        by (simp add: model_validate_def)
      with f have "scoped = ListCollectionsArgs d"
        by (simp add: scope_filter_def)
      with p have "validated = ListCollectionsArgs d"
        by (simp add: scope_pipeline_def)
      with d show False by (simp add: disallowed_def)
    qed
  qed
  then show "((e, ListCollectionsTool, [], h), (e, tk, raw_args, h))
             \<in> measure (\<lambda>(e, tk, raw_args, h). if tk = ListCollectionsTool then 0 else 1)"
    by simp
qed

section \<open>The RPC server and the orchestrator's tool call\<close>

text \<open>\<^verbatim>\<open>RpcServer.call_tool\<close> (\<^verbatim>\<open>src/server.py\<close>); all six tools are registered.\<close>

definition rpc_call_tool :: "env \<Rightarrow> string \<Rightarrow> pydict \<Rightarrow> host \<Rightarrow> (py_exn + pyval) \<times> host" where
  "rpc_call_tool e name arguments h =
     (case tool_of_name name of
        None \<Rightarrow> (Inl (ValueError (''Tool '' @ quoted name @ '' not found'')), h)
      | Some tk \<Rightarrow>
          (case run e tk arguments h of
             (r, h1) \<Rightarrow>
               (r, case telemetry_record (env_clock e) name (clk_duration_ms (env_clock e))
                          (case r of Inl x \<Rightarrow> False | Inr v \<Rightarrow> True) None (h_telemetry h1) of
                     Inl x \<Rightarrow> h1
                   | Inr t \<Rightarrow> h1\<lparr>h_telemetry := t\<rparr>)))"

text \<open>The setter of \<^verbatim>\<open>Session.current_company_id\<close> (\<^verbatim>\<open>src/session.py\<close>).\<close>

definition set_current_company_id :: "string \<Rightarrow> host \<Rightarrow> py_exn + host" where
  "set_current_company_id cid h =
     (case object_id (OfStr cid) of
        Inl x \<Rightarrow> Inl (ValueError (''Invalid company_id: '' @ cid))
      | Inr oid \<Rightarrow> Inr (h\<lparr>h_company_id := Some oid\<rparr>))"

section \<open>Trimming and emptiness of results (\<^verbatim>\<open>utils/app_utils.py\<close>)\<close>

definition BIG_FIELDS :: "string list" where
  "BIG_FIELDS = [''images'', ''videos'', ''documents'', ''brochure'', ''qrCode'',
                 ''govtApprovedDocuments'', ''layoutPlanImages'']"

definition MAX_DOCS :: nat where
  "MAX_DOCS = 15"

fun to_json_safe :: "pyval \<Rightarrow> pyval" where
  "to_json_safe (POid h) = PStr h"
| "to_json_safe (PDate t) = PStr t"
| "to_json_safe v = v"

fun trim_document :: "pyval \<Rightarrow> pyval" where
  "trim_document (PDict doc) =
     PDict (concat (map (\<lambda>(k, v).
        if k = ''__v'' \<or> k \<in> set BIG_FIELDS then []
        else [(k, case v of
                    PDict d \<Rightarrow> trim_document v
                  | PList xs \<Rightarrow>
                      PList (take 10 (map (\<lambda>x. case x of PDict d \<Rightarrow> trim_document x
                                                  | _ \<Rightarrow> to_json_safe x) xs))
                  | _ \<Rightarrow> to_json_safe v)]) doc))"
| "trim_document v = v"

definition trim_if_dict :: "pyval \<Rightarrow> pyval" where
  "trim_if_dict d = (case d of PDict x \<Rightarrow> trim_document d | _ \<Rightarrow> d)"

text \<open>
  Iterating a value, and slicing it first (\<^verbatim>\<open>x[:n]\<close>); \<open>None\<close> where Python raises
  \<^verbatim>\<open>TypeError\<close>.
\<close>

definition py_iter :: "pyval \<Rightarrow> pyval list option" where
  "py_iter v =
     (case v of
        PList xs \<Rightarrow> Some xs
      | PDict d \<Rightarrow> Some (map (\<lambda>(k, x). PStr k) d)
      | PStr s \<Rightarrow> Some (map (\<lambda>c. PStr [c]) s)
      | _ \<Rightarrow> None)"

definition py_iter_slice :: "nat \<Rightarrow> pyval \<Rightarrow> pyval list option" where
  "py_iter_slice n v =
     (case v of
        PList xs \<Rightarrow> Some (take n xs)
      | PStr s \<Rightarrow> Some (map (\<lambda>c. PStr [c]) (take n s))
      | _ \<Rightarrow> None)"

definition get_default :: "pydict \<Rightarrow> string \<Rightarrow> pyval \<Rightarrow> pyval" where
  "get_default d k dflt = (case map_of d k of None \<Rightarrow> dflt | Some v \<Rightarrow> v)"

text \<open>One bucket of a \<^verbatim>\<open>find\<close> result, one entry and one hit of a \<^verbatim>\<open>search\<close> result.\<close>

definition trim_bucket :: "pyval \<Rightarrow> pyval option" where
  "trim_bucket bucket =
     (case bucket of
        PDict b \<Rightarrow>
          (case py_iter_slice MAX_DOCS (get_default b ''documents'' (PList [])) of
             None \<Rightarrow> None
           | Some docs \<Rightarrow> Some (PDict (dict_set ''documents'' (PList (map trim_if_dict docs)) b)))
      | _ \<Rightarrow> None)"

definition trim_hit :: "(pyval \<Rightarrow> string) \<Rightarrow> pyval \<Rightarrow> pyval option" where
  "trim_hit str h =
     (case h of
        PDict d \<Rightarrow>
          (case (map_of d ''_id'', map_of d ''matches'') of
             (Some i, Some m) \<Rightarrow> Some (PDict [(''_id'', PStr (str i)), (''matches'', m)])
           | _ \<Rightarrow> None)
      | _ \<Rightarrow> None)"

definition trim_entry :: "(pyval \<Rightarrow> string) \<Rightarrow> pyval \<Rightarrow> pyval option" where
  "trim_entry str entry =
     (case entry of
        PDict d \<Rightarrow>
          (case map_of d ''collection'' of
             None \<Rightarrow> None
           | Some c \<Rightarrow>
               (case py_iter_slice MAX_DOCS (get_default d ''hits'' (PList [])) of
                  None \<Rightarrow> None
                | Some hs \<Rightarrow>
                    (case those (map (trim_hit str) hs) of
                       None \<Rightarrow> None
                     | Some hits \<Rightarrow> Some (PDict [(''collection'', c), (''hits'', PList hits)]))))
      | _ \<Rightarrow> None)"

text \<open>
  \<^verbatim>\<open>trim_result\<close>; any exception inside gives the raw result back. The first argument
  is Python's \<^verbatim>\<open>str\<close>.
\<close>

definition trim_result :: "(pyval \<Rightarrow> string) \<Rightarrow> string \<Rightarrow> pyval \<Rightarrow> pyval" where
  "trim_result str tool_nm raw =
     (if tool_nm = ''find'' then
        (case raw of
           PDict r \<Rightarrow>
             (case py_iter (get_default r ''results'' (PList [])) of
                None \<Rightarrow> raw
              | Some buckets \<Rightarrow>
                  (case those (map trim_bucket buckets) of
                     None \<Rightarrow> raw
                   | Some bs \<Rightarrow> PDict (dict_set ''results'' (PList bs) r)))
         | _ \<Rightarrow> raw)
      else if tool_nm = ''aggregate'' then
        (case raw of
           PDict r \<Rightarrow>
             (case py_iter_slice MAX_DOCS (get_default r ''result'' (PList [])) of
                None \<Rightarrow> raw
              | Some docs \<Rightarrow> PDict (dict_set ''result'' (PList (map trim_if_dict docs)) r))
         | _ \<Rightarrow> raw)
      else if tool_nm = ''search'' then
        (case raw of
           PDict r \<Rightarrow>
             (case py_iter (get_default r ''results'' (PList [])) of
                None \<Rightarrow> raw
              | Some entries \<Rightarrow>
                  (case those (map (trim_entry str) entries) of
                     None \<Rightarrow> raw
                   | Some es \<Rightarrow> PDict [(''results'', PList es)]))
         | _ \<Rightarrow> raw)
      else raw)"

text \<open>\<^verbatim>\<open>x == 0\<close>: also \<^verbatim>\<open>False == 0\<close> holds in Python.\<close>

fun py_eq_zero :: "pyval \<Rightarrow> bool" where
  "py_eq_zero (PInt i) = (i = 0)"
| "py_eq_zero (PBool b) = (\<not> b)"
| "py_eq_zero v = False"

definition result_is_empty :: "string \<Rightarrow> pyval \<Rightarrow> bool" where
  "result_is_empty tool_nm result =
     (case result of
        PDict r \<Rightarrow>
          (if tool_nm = ''count'' then py_eq_zero (get_default r ''result'' (PInt 0))
           else if tool_nm = ''find'' then py_eq_zero (get_default r ''total_documents'' (PInt 0))
           else if tool_nm = ''aggregate'' then \<not> truthy (get_default r ''result'' PNone)
           else if tool_nm = ''search'' then \<not> truthy (get_default r ''results'' PNone)
           else False)
      | _ \<Rightarrow> False)"

text \<open>
  \<^verbatim>\<open>call_tool\<close>: the tenant is set on the session, a string \<^verbatim>\<open>_id\<close> of a \<^verbatim>\<open>find\<close>
  filter becomes an ObjectId, the tool runs through the RPC server, and its exceptions
  become HTTP errors.
\<close>

definition convert_find_id :: "pydict \<Rightarrow> py_exn + pydict" where
  "convert_find_id args =
     (let filt0 = get_default args ''filter'' (PDict [])
      in case filt0 of
        PDict filt \<Rightarrow>
          (case map_of filt ''_id'' of
             Some (PStr i) \<Rightarrow>
               (case object_id (OfStr i) of
                  Inl x \<Rightarrow> Inr args
                | Inr oid \<Rightarrow> Inr (dict_set ''filter'' (PDict (dict_set ''_id'' (POid oid) filt)) args))
           | _ \<Rightarrow> Inr args)
      | _ \<Rightarrow> Inl (no_attribute filt0 ''get''))"

definition call_tool ::
  "env \<Rightarrow> (pyval \<Rightarrow> string) \<Rightarrow> string \<Rightarrow> pydict \<Rightarrow> string \<Rightarrow> host
     \<Rightarrow> (py_exn + pyval \<times> bool) \<times> host" where
  "call_tool e str name args company_id h =
     (case set_current_company_id company_id h of
        Inl x \<Rightarrow> (Inl (HTTPException 500 ''Internal server error''), h)
      | Inr h0 \<Rightarrow>
          (case (if name = ''find'' then convert_find_id args else Inr args) of
             Inl x \<Rightarrow> (Inl x, h0)
           | Inr args1 \<Rightarrow>
               (case rpc_call_tool e name args1 h0 of
                  (Inl (ToolException m), h1) \<Rightarrow> (Inl (HTTPException 400 m), h1)
                | (Inl x, h1) \<Rightarrow> (Inl (HTTPException 500 ''Internal server error''), h1)
                | (Inr raw, h1) \<Rightarrow>
                    (let shrunk = trim_result str name raw
                     in (Inr (shrunk, result_is_empty name shrunk), h1)))))"

section \<open>The chat loop (\<^verbatim>\<open>_run_chat\<close> of \<^verbatim>\<open>app.py\<close>)\<close>

text \<open>
  The language model is outside the program: its successive answers are a script, and
  each call of \<^verbatim>\<open>_openai_chat\<close> consumes one of them. An answer is a function call
  (with the arguments as a JSON object), a text, or a failure of the client. The
  content \<^verbatim>\<open>json.dumps(x)\<close> of a message is kept as the value \<^verbatim>\<open>x\<close>: every tool
  result is taken to be one that \<^verbatim>\<open>json.dumps\<close> accepts. (It refuses an ObjectId or a
  datetime, which \<^verbatim>\<open>trim_result\<close> leaves where a list lies inside a list; the results
  \<^verbatim>\<open>{"result": 0}\<close>, an empty result list and the text replies hold none.)
\<close>

datatype llm_reply =
    FunctionCall string pydict
  | Content string
  | LLMOpenAIError
  | LLMCrash

datatype message =
    SystemMsg string
  | UserMsg string
  | AssistantMsg string
  | AssistantCall string pyval
  | FunctionMsg string pyval

record turn =
  t_messages :: "message list"
  t_found :: bool
  t_retries :: nat
  t_host :: host

text \<open>
  The end of a turn: the reply with the tenant's new history, an exception, or the
  loop still waiting for the model when the script is over.
\<close>

datatype outcome =
    Returned string "message list" turn
  | Raised py_exn turn
  | Waiting turn

text \<open>The dash of the two canned messages is U+2014, here in UTF-8.\<close>

definition em_dash :: string where
  "em_dash = [CHR 0xE2, CHR 0x80, CHR 0x94]"

definition NO_DATA :: string where
  "NO_DATA = ''No data found'' @ em_dash @ ''please refine your question.''"

definition STILL_NO_DATA :: string where
  "STILL_NO_DATA = ''Still no data'' @ em_dash @ ''maybe try differently?''"

definition deque_append :: "nat \<Rightarrow> 'a \<Rightarrow> 'a list \<Rightarrow> 'a list" where
  "deque_append maxlen x d = drop (Suc (length d) - maxlen) (d @ [x])"

text \<open>\<^verbatim>\<open>x[key]\<close> and \<^verbatim>\<open>x[0]\<close> on a tool result.\<close>

definition get_item :: "pyval \<Rightarrow> string \<Rightarrow> py_exn + pyval" where
  "get_item x key =
     (case x of
        PDict d \<Rightarrow> (case map_of d key of None \<Rightarrow> Inl (KeyError key) | Some v \<Rightarrow> Inr v)
      | _ \<Rightarrow> Inl (TypeError ''object is not subscriptable by a string''))"

definition get_first :: "pyval \<Rightarrow> py_exn + pyval" where
  "get_first x =
     (case x of
        PList [] \<Rightarrow> Inl (IndexError ''list index out of range'')
      | PList (v # vs) \<Rightarrow> Inr v
      | PStr [] \<Rightarrow> Inl (IndexError ''string index out of range'')
      | PStr (c # cs) \<Rightarrow> Inr (PStr [c])
      | PDict d \<Rightarrow> Inl (KeyError ''0'')
      | _ \<Rightarrow> Inl (TypeError ''object is not subscriptable''))"

text \<open>The \<^verbatim>\<open>find\<close> call that follows a non-emp \<^verbatim>\<open>search\<close>.\<close>

definition search_followup :: "pyval \<Rightarrow> py_exn + message" where
  "search_followup res =
     (case get_item res ''results'' of
        Inl x \<Rightarrow> Inl x
      | Inr rs \<Rightarrow>
          (case get_first rs of
             Inl x \<Rightarrow> Inl x
           | Inr top_entry \<Rightarrow>
               (case get_item top_entry ''collection'' of
                  Inl x \<Rightarrow> Inl x
                | Inr c \<Rightarrow>
                    (case get_item top_entry ''hits'' of
                       Inl x \<Rightarrow> Inl x
                     | Inr hs \<Rightarrow>
                         (case get_first hs of
                            Inl x \<Rightarrow> Inl x
                          | Inr hit \<Rightarrow>
                              (case get_item hit ''_id'' of
                                 Inl x \<Rightarrow> Inl x
                               | Inr i \<Rightarrow>
                                   Inr (AssistantCall ''find''
                                          (PDict [(''collection'', c),
                                                  (''filter'', PDict [(''_id'', i)]),
                                                  (''limit'', PInt 1)]))))))))"

type_synonym tool_caller =
  "string \<Rightarrow> pydict \<Rightarrow> host \<Rightarrow> (py_exn + pyval \<times> bool) \<times> host"

text \<open>
  Lines 169 to 182: before \<^verbatim>\<open>count\<close>, \<^verbatim>\<open>find\<close> or \<^verbatim>\<open>aggregate\<close> on a collection,
  its schema and its size are fetched and put into the conversation.
\<close>

definition prefetch :: "tool_caller \<Rightarrow> string \<Rightarrow> pydict \<Rightarrow> turn \<Rightarrow> py_exn \<times> turn + turn" where
  "prefetch ct name args t =
     (let coll = get_default args ''collection'' PNone
      in if name \<in> {''count'', ''find'', ''aggregate''} \<and> truthy coll then
           (let sargs = [(''collection'', coll), (''maxValues'', PInt 10)]
            in case ct ''collection_schema'' sargs (t_host t) of
                 (Inl x, h1) \<Rightarrow> Inl (x, t\<lparr>t_host := h1\<rparr>)
               | (Inr (sca, em1), h1) \<Rightarrow>
                   (let t1 = t\<lparr>t_host := h1,
                               t_messages := t_messages t @
                                 [AssistantCall ''collection_schema'' (PDict sargs),
                                  FunctionMsg ''collection_schema'' sca]\<rparr>;
                        cargs = [(''collection'', coll), (''filter'', PDict [])]
                    in case ct ''count'' cargs h1 of
                         (Inl x, h2) \<Rightarrow> Inl (x, t1\<lparr>t_host := h2\<rparr>)
                       | (Inr (cnt, em2), h2) \<Rightarrow>
                           Inr (t1\<lparr>t_host := h2,
                                   t_messages := t_messages t1 @
                                     [AssistantCall ''count'' (PDict cargs),
                                      FunctionMsg ''count'' cnt]\<rparr>)))
         else Inr t)"

text \<open>Lines 184 to 198: the requested tool runs, and its emptiness is accounted for.\<close>

definition account :: "bool \<Rightarrow> turn \<Rightarrow> turn" where
  "account emp t =
     (let found = (t_found t \<or> \<not> emp)
      in if \<not> found \<and> t_retries t \<noteq> 0
         then t\<lparr>t_found := found, t_retries := t_retries t - 1\<rparr>
         else if \<not> found
         then t\<lparr>t_found := True, t_messages := t_messages t @ [AssistantMsg NO_DATA]\<rparr>
         else t\<lparr>t_found := found\<rparr>)"

text \<open>
  The loop. \<^verbatim>\<open>enrich\<close> is the replacement of ids by names
  (\<^verbatim>\<open>async_replace_ids_with_names\<close>, whose failure keeps the result as it is).
\<close>

fun chat_loop ::
  "tool_caller \<Rightarrow> (pyval \<Rightarrow> pyval) \<Rightarrow> string \<Rightarrow> message list \<Rightarrow> llm_reply list \<Rightarrow> turn \<Rightarrow> outcome" where
  "chat_loop ct enrich query history [] t = Waiting t"
| "chat_loop ct enrich query history (LLMOpenAIError # script) t =
     Raised (HTTPException 502 ''LLM unavailable, please retry'') t"
| "chat_loop ct enrich query history (LLMCrash # script) t =
     Raised (HTTPException 500 ''Error processing LLM request'') t"
| "chat_loop ct enrich query history (FunctionCall name args # script) t =
     (if name = ''search'' then
        (case ct ''search'' args (t_host t) of
           (Inl x, h1) \<Rightarrow> Raised x (t\<lparr>t_host := h1\<rparr>)
         | (Inr (res, emp), h1) \<Rightarrow>
             (let t1 = t\<lparr>t_host := h1,
                         t_messages := t_messages t @ [FunctionMsg ''search'' res]\<rparr>
              in if \<not> emp then
                   (case search_followup res of
                      Inl x \<Rightarrow> Raised x t1
                    | Inr m \<Rightarrow>
                        chat_loop ct enrich query history script
                          (t1\<lparr>t_messages := t_messages t1 @ [m]\<rparr>))
                 else chat_loop ct enrich query history script (t1\<lparr>t_found := True\<rparr>)))
      else
        (case prefetch ct name args t of
           Inl (x, t1) \<Rightarrow> Raised x t1
         | Inr t1 \<Rightarrow>
             (case ct name args (t_host t1) of
                (Inl x, h2) \<Rightarrow> Raised x (t1\<lparr>t_host := h2\<rparr>)
              | (Inr (out, emp), h2) \<Rightarrow>
                  chat_loop ct enrich query history script
                    (account emp
                       (t1\<lparr>t_host := h2,
                           t_messages := t_messages t1 @ [FunctionMsg name (enrich out)]\<rparr>)))))"
| "chat_loop ct enrich query history (Content raw # script) t =
     (if \<not> t_found t \<and> t_retries t \<noteq> 0 then
        chat_loop ct enrich query history script
          (t\<lparr>t_retries := t_retries t - 1,
             t_messages := t_messages t @ [AssistantMsg STILL_NO_DATA]\<rparr>)
      else
        (case script of
           [] \<Rightarrow> Waiting t
         | s # rest \<Rightarrow>
             (let summary = (case s of Content c \<Rightarrow> strip c | _ \<Rightarrow> raw)
              in Returned summary
                   (deque_append 10 (AssistantMsg summary) (deque_append 10 (UserMsg query) history))
                   t)))"

text \<open>
  \<^verbatim>\<open>_run_chat\<close>: the conversation starts with the two system messages, the tenant's
  history, the question and the injected \<^verbatim>\<open>list_collections\<close> exchange; nothing is
  found yet and two retries are left.
\<close>

definition run_chat ::
  "tool_caller \<Rightarrow> (pyval \<Rightarrow> pyval) \<Rightarrow> message \<Rightarrow> message \<Rightarrow> pyval \<Rightarrow> string \<Rightarrow> message list
     \<Rightarrow> llm_reply list \<Rightarrow> host \<Rightarrow> outcome" where
  "run_chat ct enrich date_msg system_msg list_collections_cache query history script h =
     (let t0 = \<lparr>t_messages = [], t_found = False, t_retries = 2, t_host = h\<rparr>
      in case get_item list_collections_cache ''result'' of
           Inl x \<Rightarrow> Raised x t0
         | Inr colls \<Rightarrow>
             chat_loop ct enrich query history script
               (t0\<lparr>t_messages :=
                      [date_msg, system_msg] @ history @
                      [UserMsg query,
                       AssistantCall ''list_collections'' (PDict []),
                       FunctionMsg ''list_collections'' list_collections_cache]\<rparr>))"

section \<open>Concrete inputs\<close>


text \<open>The invariant of the telemetry buffer: distinct indices, all below the next one, and no more events than the cap.\<close>

definition tel_inv :: "telemetry \<Rightarrow> bool" where
  "tel_inv t = (distinct (map fst (tel_cache t))
     \<and> (\<forall>i \<in> set (map fst (tel_cache t)). i < tel_next_idx t)
     \<and> int (length (tel_cache t)) \<le> tel_maxsize t)"

definition example_clock :: clock where
  "example_clock = \<lparr>clk_now_ms = 1700000000000, clk_duration_ms = 7, clk_platform = []\<rparr>"

definition example_calls :: "record_call list" where
  "example_calls =
     [(''server_start'', 0, True, None),
      (''count'', 12, True, Some [(''collection'', PStr ''leads'')]),
      (''find'', 30, False, None),
      (''aggregate'', 45, True, None)]"

text \<open>Two tenants, a configuration, a database that answers every query with nothing.\<close>

definition tenant_a :: string where
  "tenant_a = ''aaaaaaaaaaaaaaaaaaaaaaaa''"

definition tenant_b :: string where
  "tenant_b = ''bbbbbbbbbbbbbbbbbbbbbbbb''"

definition example_config :: config where
  "example_config =
     \<lparr>cfg_db_name = ''crm'', cfg_allowed_collections = None,
      cfg_non_tenant_collections = [''plans'', ''countries'']\<rparr>"

definition example_db :: database where
  "example_db =
     \<lparr>db_count = (\<lambda>db coll f. Inr 0),
      db_find = (\<lambda>db coll f proj srt skp lim. Inr []),
      db_aggregate = (\<lambda>db coll pl disk. Inr []),
      db_list_collection_names = (\<lambda>db. Inr [])\<rparr>"

text \<open>
  A stand-in for pydantic that reads the fields which the examples use and leaves
  the others at their defaults.
\<close>

definition get_str :: "pydict \<Rightarrow> string \<Rightarrow> string option" where
  "get_str d k = (case map_of d k of Some (PStr s) \<Rightarrow> Some s | _ \<Rightarrow> None)"

definition get_dict :: "pydict \<Rightarrow> string \<Rightarrow> pydict option" where
  "get_dict d k = (case map_of d k of Some (PDict x) \<Rightarrow> Some x | _ \<Rightarrow> None)"

definition example_pydantic :: pydantic where
  "example_pydantic =
     \<lparr>parse_count = (\<lambda>d. case get_str d ''collection'' of
          None \<Rightarrow> Inl ''collection: field required''
        | Some c \<Rightarrow> Inr \<lparr>cnt_database = get_str d ''database'', cnt_collection = c,
                         cnt_filter = (case get_dict d ''filter'' of None \<Rightarrow> [] | Some f \<Rightarrow> f)\<rparr>),
      parse_find = (\<lambda>d. Inr
          \<lparr>fnd_database = get_str d ''database'', fnd_collection = get_str d ''collection'',
           fnd_filter = (case get_dict d ''filter'' of None \<Rightarrow> [] | Some f \<Rightarrow> f),
           fnd_projection = None, fnd_sort = None, fnd_skip = 0, fnd_limit = 10,
           fnd_stopAfterFirst = True\<rparr>),
      parse_aggregate = (\<lambda>d. case get_str d ''collection'' of
          None \<Rightarrow> Inl ''collection: field required''
        | Some c \<Rightarrow> Inr
            \<lparr>agg_database = get_str d ''database'', agg_collection = c, agg_pipeline = None,
             agg_groupBy = map_option GroupStr (get_str d ''groupBy''),
             agg_statField = None, agg_statOp = None, agg_filter = get_dict d ''filter'',
             agg_sortBy = None, agg_sortDir = Some ''desc'', agg_limit = Some 100,
             agg_allowDiskUse = False\<rparr>),
      parse_list_collections = (\<lambda>d. Inr (get_str d ''database'')),
      parse_collection_schema = (\<lambda>d. case get_str d ''collection'' of
          None \<Rightarrow> Inl ''collection: field required''
        | Some c \<Rightarrow> Inr \<lparr>sch_collection = c, sch_maxValues = 10\<rparr>),
      parse_search = (\<lambda>d. case get_str d ''term'' of
          None \<Rightarrow> Inl ''term: field required''
        | Some s \<Rightarrow> Inr \<lparr>sr_term = s, sr_fuzzy_threshold = Some 80\<rparr>)\<rparr>"

definition example_env :: env where
  "example_env =
     \<lparr>env_config = example_config, env_clock = example_clock, env_db = example_db,
      env_schemas = [], env_isoparse = (\<lambda>s. None), env_parse = example_pydantic,
      env_search = (\<lambda>a t. Inr (PDict [(''results'', PList [])]))\<rparr>"

definition example_host :: host where
  "example_host =
     \<lparr>h_company_id = Some tenant_a, h_telemetry = new_telemetry True 1000, h_db_log = []\<rparr>"

definition restricted_env :: env where
  "restricted_env =
     example_env\<lparr>env_config := example_config\<lparr>cfg_allowed_collections := Some [''leads'', ''projects'']\<rparr>\<rparr>"

definition exists_filter :: pydict where
  "exists_filter = [(''company'', PDict [(''$exists'', PBool True)])]"

definition secret_arguments :: pydict where
  "secret_arguments =
     [(''collection'', PStr ''users''),
      (''filter'', PDict [(''password'', PStr ''hunter2''),
                          (''passphrase'', PStr ''open sesame'')])]"

text \<open>A stand-in for Python's \<^verbatim>\<open>str\<close> on the identifiers of search hits.\<close>

definition example_str :: "pyval \<Rightarrow> string" where
  "example_str v = (case v of POid h \<Rightarrow> h | PStr s \<Rightarrow> s | _ \<Rightarrow> [])"

definition spaced_company_filter :: pydict where
  "spaced_company_filter = [('' company'', PDict [(''$exists'', PBool True)])]"

text \<open>
  The orchestrator's tool caller for tenant \<open>tenant_a\<close>, over an environment whose
  schema table knows \<^verbatim>\<open>leads\<close> and whose database counts zero documents.
\<close>

definition chat_env :: env where
  "chat_env =
     example_env\<lparr>env_schemas :=
       [(''leads'', \<lparr>sc_fields = [(''name'', PStr ''string''), (''leadStatus'', PStr ''string'')],
                     sc_values = [(''leadStatus'', [PStr ''Open'', PStr ''Converted''])]\<rparr>)]\<rparr>"

definition example_caller :: tool_caller where
  "example_caller name args h = call_tool chat_env example_str name args tenant_a h"

definition count_leads :: pydict where
  "count_leads = [(''collection'', PStr ''leads''), (''filter'', PDict [])]"

definition fresh_turn :: turn where
  "fresh_turn = \<lparr>t_messages = [UserMsg ''how many leads?''], t_found = False, t_retries = 2,
                  t_host = example_host\<rparr>"

definition spent_turn :: turn where
  "spent_turn = \<lparr>t_messages = [UserMsg ''how many leads?''], t_found = False, t_retries = 0,
                  t_host = example_host\<rparr>"

section \<open>Injection and un-wrapping\<close>














section \<open>Telemetry buffer\<close>

lemma length_filter_key:
  "distinct (map fst c) \<Longrightarrow> k \<in> set (map fst c) \<Longrightarrow>
   Suc (length (filter (\<lambda>(i, e). i \<noteq> k) c)) = length c"
proof (induction c)
  case Nil
  then show ?case by simp
next
  case (Cons x c)
  show ?case
  proof (cases "fst x = k")
    case True
    with Cons.prems have "k \<notin> set (map fst c)" by auto
    then have "filter (\<lambda>(i, e). i \<noteq> k) c = c"
      by (induction c) auto
    with True show ?thesis by (cases x) simp
  next
    case False
    with Cons show ?thesis by (cases x) auto
  qed
qed

lemma record_full:
  assumes "tel_inv t" and "tel_enabled t" and "1 \<le> tel_maxsize t"
    and "int (length (tel_cache t)) = tel_maxsize t"
  shows "telemetry_record clk c d s a t =
     Inr (t\<lparr>tel_cache := filter (\<lambda>(i, e). i \<noteq> Min (set (map fst (tel_cache t)))) (tel_cache t)
                  @ [(tel_next_idx t, make_event clk c d s a)],
            tel_next_idx := Suc (tel_next_idx t)\<rparr>)"
    and "Suc (length (filter (\<lambda>(i, e). i \<noteq> Min (set (map fst (tel_cache t)))) (tel_cache t)))
         = length (tel_cache t)"
proof -
  from assms have ne: "tel_cache t \<noteq> []" by auto
  then have "Min (set (map fst (tel_cache t))) \<in> set (map fst (tel_cache t))"
    by (intro Min_in) auto
  with assms(1) show len: "Suc (length (filter (\<lambda>(i, e). i \<noteq> Min (set (map fst (tel_cache t)))) (tel_cache t)))
         = length (tel_cache t)"
    by (simp add: tel_inv_def length_filter_key)
  then have "int (length (filter (\<lambda>(i, e). i \<noteq> Min (set (map fst (tel_cache t)))) (tel_cache t))) + 1
      = tel_maxsize t"
    using assms(4) by linarith
  with assms ne show "telemetry_record clk c d s a t =
     Inr (t\<lparr>tel_cache := filter (\<lambda>(i, e). i \<noteq> Min (set (map fst (tel_cache t)))) (tel_cache t)
                  @ [(tel_next_idx t, make_event clk c d s a)],
            tel_next_idx := Suc (tel_next_idx t)\<rparr>)"
    by (simp add: telemetry_record_def cache_setitem_def Let_def)
qed

lemma record_room:
  assumes "tel_enabled t" and "int (length (tel_cache t)) < tel_maxsize t"
  shows "telemetry_record clk c d s a t =
     Inr (t\<lparr>tel_cache := tel_cache t @ [(tel_next_idx t, make_event clk c d s a)],
            tel_next_idx := Suc (tel_next_idx t)\<rparr>)"
  using assms by (simp add: telemetry_record_def cache_setitem_def Let_def)

lemma record_inv:
  assumes "tel_inv t" and "1 \<le> tel_maxsize t"
  shows "\<exists>t'. telemetry_record clk c d s a t = Inr t' \<and> tel_inv t'
            \<and> tel_maxsize t' = tel_maxsize t \<and> tel_enabled t' = tel_enabled t"
proof (cases "tel_enabled t")
  case False
  with assms show ?thesis by (simp add: telemetry_record_def)
next
  case True
  show ?thesis
  proof (cases "int (length (tel_cache t)) < tel_maxsize t")
    case True
    with \<open>tel_enabled t\<close> assms show ?thesis
      by (auto simp: record_room tel_inv_def)
  next
    case False
    with assms have full: "int (length (tel_cache t)) = tel_maxsize t"
      by (simp add: tel_inv_def)
    from record_full(1)[OF assms(1) True assms(2) full, where clk=clk and c=c and d=d and s=s and a=a]
      record_full(2)[OF assms(1) True assms(2) full] assms full
    show ?thesis
      by (auto simp: tel_inv_def distinct_map_filter)
  qed
qed

lemma record_all_inv:
  "tel_inv t \<Longrightarrow> 1 \<le> tel_maxsize t \<Longrightarrow>
   tel_inv (record_all clk calls t) \<and> tel_maxsize (record_all clk calls t) = tel_maxsize t
   \<and> tel_enabled (record_all clk calls t) = tel_enabled t"
proof (induction calls arbitrary: t)
  case Nil
  then show ?case by simp
next
  case (Cons call calls)
  obtain c d s a where call: "call = (c, d, s, a)" by (cases call) auto
  from record_inv[OF Cons.prems, of clk c d s a] obtain t' where
    t': "telemetry_record clk c d s a t = Inr t'" "tel_inv t'" "tel_maxsize t' = tel_maxsize t"
        "tel_enabled t' = tel_enabled t" by blast
  with Cons.IH[of t'] Cons.prems show ?case by (simp add: call)
qed


text \<open>
  C9: after any sequence of \<^verbatim>\<open>record\<close> calls on a buffer with a cap of at least one event
  (the cap is 1000 unless configured), the buffer holds at most the cap; and the next
  \<^verbatim>\<open>record\<close> of an enabled telemetry succeeds, keeps the bound and stores the new event
  last. Into a buffer with room it only appends; into a full buffer it first evicts
  exactly one event, the one with the smallest index, and never the new one.
\<close>

theorem telemetry_buffer_bounded:
  assumes "1 \<le> m" and "t = record_all clk calls (new_telemetry en m)"
  shows "int (length (tel_cache t)) \<le> m
    \<and> (en \<longrightarrow>
        (\<exists>t'. telemetry_record clk c d s a t = Inr t'
           \<and> int (length (tel_cache t')) \<le> m
           \<and> last (tel_cache t') = (tel_next_idx t, make_event clk c d s a)
           \<and> (int (length (tel_cache t)) < m \<longrightarrow>
                tel_cache t' = tel_cache t @ [(tel_next_idx t, make_event clk c d s a)])
           \<and> (int (length (tel_cache t)) = m \<longrightarrow>
                tel_cache t' =
                  filter (\<lambda>(i, e). i \<noteq> Min (set (map fst (tel_cache t)))) (tel_cache t)
                    @ [(tel_next_idx t, make_event clk c d s a)]
                \<and> length (tel_cache t') = length (tel_cache t)
                \<and> (\<forall>i \<in> set (map fst (tel_cache t)). Min (set (map fst (tel_cache t))) \<le> i))))"
proof -
  have init: "tel_inv (new_telemetry en m)" "tel_maxsize (new_telemetry en m) = m"
    using assms(1) by (simp_all add: tel_inv_def new_telemetry_def)
  from record_all_inv[OF init(1), of clk calls] assms init(2)
  have inv: "tel_inv t" and m: "tel_maxsize t = m" and en: "tel_enabled t = en"
    by (simp_all add: new_telemetry_def)
  from inv m have bound: "int (length (tel_cache t)) \<le> m" by (simp add: tel_inv_def)
  have "\<exists>t'. telemetry_record clk c d s a t = Inr t'
           \<and> int (length (tel_cache t')) \<le> m
           \<and> last (tel_cache t') = (tel_next_idx t, make_event clk c d s a)
           \<and> (int (length (tel_cache t)) < m \<longrightarrow>
                tel_cache t' = tel_cache t @ [(tel_next_idx t, make_event clk c d s a)])
           \<and> (int (length (tel_cache t)) = m \<longrightarrow>
                tel_cache t' =
                  filter (\<lambda>(i, e). i \<noteq> Min (set (map fst (tel_cache t)))) (tel_cache t)
                    @ [(tel_next_idx t, make_event clk c d s a)]
                \<and> length (tel_cache t') = length (tel_cache t)
                \<and> (\<forall>i \<in> set (map fst (tel_cache t)). Min (set (map fst (tel_cache t))) \<le> i))"
    if "en"
  proof (cases "int (length (tel_cache t)) < m")
    case True
    with that en m bound show ?thesis
      by (simp add: record_room)
  next
    case False
    with bound have full: "int (length (tel_cache t)) = m" by simp
    from that en have e: "tel_enabled t" by simp
    from assms(1) m have pos: "1 \<le> tel_maxsize t" by simp
    from full m have f: "int (length (tel_cache t)) = tel_maxsize t" by simp
    from record_full(1)[OF inv e pos f, where clk=clk and c=c and d=d and s=s and a=a]
      record_full(2)[OF inv e pos f] full
    show ?thesis by auto
  qed
  with bound show ?thesis by blast
qed

lemma example_state:
  "tel_cache (record_all example_clock example_calls (new_telemetry True 3)) =
     [(1, make_event example_clock ''count'' 12 True (Some [(''collection'', PStr ''leads'')])),
      (2, make_event example_clock ''find'' 30 False None),
      (3, make_event example_clock ''aggregate'' 45 True None)]
   \<and> tel_next_idx (record_all example_clock example_calls (new_telemetry True 3)) = 4"
  by (simp add: example_calls_def new_telemetry_def telemetry_record_def cache_setitem_def)


theorem telemetry_buffer_bounded_witness:
  "(1::int) \<le> 3
   \<and> int (length (tel_cache (record_all example_clock example_calls (new_telemetry True 3)))) = 3
   \<and> (\<exists>t'. telemetry_record example_clock ''search'' 5 True None
              (record_all example_clock example_calls (new_telemetry True 3)) = Inr t'
         \<and> map fst (tel_cache t') = [2, 3, 4]
         \<and> last (tel_cache t') = (4, make_event example_clock ''search'' 5 True None))
   \<and> int (length (tel_cache (record_all example_clock [] (new_telemetry True 3)))) < 3
   \<and> (\<exists>t'. telemetry_record example_clock ''search'' 5 True None
              (record_all example_clock [] (new_telemetry True 3)) = Inr t'
         \<and> tel_cache t' = [(0, make_event example_clock ''search'' 5 True None)])"
proof -
  have h: "(1::int) \<le> 3" by simp
  have full: "int (length (tel_cache (record_all example_clock example_calls (new_telemetry True 3)))) = 3"
    by (simp add: example_state)
  have room: "int (length (tel_cache (record_all example_clock [] (new_telemetry True 3)))) < 3"
    by (simp add: new_telemetry_def)
  from telemetry_buffer_bounded [OF h refl, of example_clock example_calls True
      "''search''" 5 True None] full
  obtain t1 where t1: "telemetry_record example_clock ''search'' 5 True None
              (record_all example_clock example_calls (new_telemetry True 3)) = Inr t1"
     "tel_cache t1 =
        filter (\<lambda>(i, e). i \<noteq> Min (set (map fst (tel_cache
           (record_all example_clock example_calls (new_telemetry True 3))))))
          (tel_cache (record_all example_clock example_calls (new_telemetry True 3)))
        @ [(tel_next_idx (record_all example_clock example_calls (new_telemetry True 3)),
            make_event example_clock ''search'' 5 True None)]"
    by auto
  from t1(2) have k1: "map fst (tel_cache t1) = [2, 3, 4]"
    "last (tel_cache t1) = (4, make_event example_clock ''search'' 5 True None)"
    by (simp_all add: example_state)
  from telemetry_buffer_bounded [OF h refl, of example_clock "[]" True
      "''search''" 5 True None] room
  obtain t2 where t2: "telemetry_record example_clock ''search'' 5 True None
              (record_all example_clock [] (new_telemetry True 3)) = Inr t2"
     "tel_cache t2 = tel_cache (record_all example_clock [] (new_telemetry True 3))
        @ [(tel_next_idx (record_all example_clock [] (new_telemetry True 3)),
            make_event example_clock ''search'' 5 True None)]"
    by auto
  from t2(2) have k2: "tel_cache t2 = [(0, make_event example_clock ''search'' 5 True None)]"
    by (simp add: new_telemetry_def)
  from t1(1) k1 have A: "\<exists>t'. telemetry_record example_clock ''search'' 5 True None
              (record_all example_clock example_calls (new_telemetry True 3)) = Inr t'
         \<and> map fst (tel_cache t') = [2, 3, 4]
         \<and> last (tel_cache t') = (4, make_event example_clock ''search'' 5 True None)"
    by (intro exI[of _ t1] conjI)
  from t2(1) k2 have B: "\<exists>t'. telemetry_record example_clock ''search'' 5 True None
              (record_all example_clock [] (new_telemetry True 3)) = Inr t'
         \<and> tel_cache t' = [(0, make_event example_clock ''search'' 5 True None)]"
    by (intro exI[of _ t2] conjI)
  show ?thesis
    by (rule conjI[OF h conjI[OF full conjI[OF A conjI[OF room B]]]])
qed

section \<open>Evaluations at concrete tool calls\<close>

text \<open>
  C1 at the call \<^verbatim>\<open>count(collection="leads", filter={"company": {"$exists": true}})\<close>
  (and the same \<^verbatim>\<open>find\<close>) of tenant \<open>tenant_a\<close>, on a tenant-scoped collection: the
  filter that reaches MongoDB is the caller's own, without the tenant id, because
  \<^verbatim>\<open>base.update(extra_filter)\<close> lets the caller's \<^verbatim>\<open>company\<close> entry replace the
  tenant's. With the empty filter the tenant id is there.
\<close>

theorem count_company_key_overrides_tenant:
  "h_db_log (snd (run example_env CountTool
       [(''collection'', PStr ''leads''), (''filter'', PDict exists_filter)] example_host))
     = [CountDocuments ''crm'' ''leads'' [(''company'', PDict [(''$exists'', PBool True)])]]
   \<and> h_db_log (snd (run example_env FindTool
       [(''collection'', PStr ''leads''), (''filter'', PDict exists_filter)] example_host))
     = [FindDocuments ''crm'' ''leads'' [(''company'', PDict [(''$exists'', PBool True)])]
          None None 0 10]
   \<and> h_db_log (snd (run example_env CountTool
       [(''collection'', PStr ''leads''), (''filter'', PDict [])] example_host))
     = [CountDocuments ''crm'' ''leads'' [(''company'', POid tenant_a)]]"
  by code_simp

text \<open>
  C2 at the call \<^verbatim>\<open>aggregate(collection="leads", groupBy="sourceType")\<close> of tenant
  \<open>tenant_a\<close>: the tool base has put its \<^verbatim>\<open>$match\<close> into \<^verbatim>\<open>args.pipeline\<close>, so
  \<^verbatim>\<open>execute\<close> takes the custom-pipeline branch; the executed pipeline is two
  \<^verbatim>\<open>$match\<close> stages and a \<^verbatim>\<open>$limit\<close>, and no stage is a \<^verbatim>\<open>$facet\<close>.
\<close>

theorem aggregate_group_by_no_facet:
  "h_db_log (snd (run example_env AggregateTool
       [(''collection'', PStr ''leads''), (''groupBy'', PStr ''sourceType'')] example_host))
     = [Aggregate ''crm'' ''leads''
          [[(''$match'', PDict [(''company'', POid tenant_a)])],
           [(''$match'', PDict [(''company'', POid tenant_a)])],
           [(''$limit'', PInt 100)]] False]
   \<and> \<not> list_ex (\<lambda>stage. ''$facet'' \<in> set (map fst stage))
        [[(''$match'', PDict [(''company'', POid tenant_a)])],
         [(''$match'', PDict [(''company'', POid tenant_a)])],
         [(''$limit'', PInt 100)]]"
  by code_simp

text \<open>
  C5 at the call \<^verbatim>\<open>count(collection="secrets", filter={})\<close> with the allow-list
  \<^verbatim>\<open>leads, projects\<close>: the call fails and nothing is sent to the database, but the
  message names no collection. The nested \<^verbatim>\<open>list_collections\<close> call answers under
  the key \<^verbatim>\<open>result\<close>, the tool base reads the key \<^verbatim>\<open>collections\<close>, and so the
  whitelist is empty.
\<close>

theorem disallowed_collection_message:
  "fst (run restricted_env CountTool
       [(''collection'', PStr ''secrets''), (''filter'', PDict [])] example_host)
     = Inl (ToolException
         ''No collections are currently allowed. Check your `allowed_collections` configuration.'')
   \<and> h_db_log (snd (run restricted_env CountTool
       [(''collection'', PStr ''secrets''), (''filter'', PDict [])] example_host)) = []"
  by code_simp

text \<open>
  C8 at the arguments \<^verbatim>\<open>{"collection": "users", "filter": {"password": "hunter2",
  "passphrase": "open sesame"}}\<close>: the buffered event holds both values as they came.
  \<^verbatim>\<open>_redact_dict\<close> never looks at a dictionary key; it substitutes only inside string
  values that contain the text \<^verbatim>\<open>"key": "value"\<close>.
\<close>

theorem telemetry_keeps_password:
  "\<exists>t. telemetry_record example_clock ''count'' 7 True (Some secret_arguments)
          (new_telemetry True 1000) = Inr t
       \<and> map (\<lambda>(i, ev). ev_arguments ev) (tel_cache t) =
           [Some [(''collection'', PStr ''users''),
                  (''filter'', PDict [(''password'', PStr ''hunter2''),
                                      (''passphrase'', PStr ''open sesame'')])]]"
  by (simp add: telemetry_record_def new_telemetry_def cache_setitem_def make_event_def
        redact_dict_def re_sub_redact_def match_at_def dquote_def secret_arguments_def)

text \<open>
  C6 at three tool calls of the orchestrator. Bad arguments and a disallowed collection
  arrive as status 400 with the text of the \<^verbatim>\<open>ToolException\<close>; the company id
  \<^verbatim>\<open>not-an-object-id\<close> arrives as status 500 with the generic text, because
  \<^verbatim>\<open>call_tool\<close> turns every failure of the session's setter into
  \<^verbatim>\<open>HTTPException(500, "Internal server error")\<close>.
\<close>

theorem invalid_company_id_status:
  "fst (call_tool example_env example_str ''count''
          [(''collection'', PStr ''leads''), (''filter'', PDict [])] ''not-an-object-id''
          example_host)
     = Inl (HTTPException 500 ''Internal server error'')
   \<and> fst (call_tool example_env example_str ''count'' [(''filter'', PDict [])] tenant_a
            example_host)
     = Inl (HTTPException 400 ''Invalid arguments: collection: field required'')
   \<and> fst (call_tool restricted_env example_str ''count''
            [(''collection'', PStr ''secrets''), (''filter'', PDict [])] tenant_a example_host)
     = Inl (HTTPException 400
         ''No collections are currently allowed. Check your `allowed_collections` configuration.'')"
  by code_simp

text \<open>
  C7 at the call \<^verbatim>\<open>aggregate(collection="plans", groupBy="name")\<close>, where \<^verbatim>\<open>plans\<close> is
  in the non-tenant set: stage 0 of the executed pipeline is
  \<^verbatim>\<open>{$match: {company: tenant}}\<close>, since \<^verbatim>\<open>execute\<close> adds the tenant whatever the
  collection. And at \<^verbatim>\<open>aggregate(collection="leads", groupBy="sourceType",
  filter={" company": {"$exists": true}})\<close>: the final key sanitising strips the
  caller's key to \<^verbatim>\<open>company\<close>, and its value replaces the tenant id in stage 0.
\<close>

theorem aggregate_non_tenant_stage0:
  "''plans'' \<in> set (cfg_non_tenant_collections (env_config example_env))
   \<and> (case h_db_log (snd (run example_env AggregateTool
              [(''collection'', PStr ''plans''), (''groupBy'', PStr ''name'')] example_host)) of
         [Aggregate db coll (stage0 # rest) disk] \<Rightarrow>
           stage0 = [(''$match'', PDict [(''company'', POid tenant_a)])]
       | _ \<Rightarrow> False)
   \<and> (case h_db_log (snd (run example_env AggregateTool
              [(''collection'', PStr ''leads''), (''groupBy'', PStr ''sourceType''),
               (''filter'', PDict spaced_company_filter)] example_host)) of
         [Aggregate db coll (stage0 # rest) disk] \<Rightarrow>
           stage0 = [(''$match'', PDict [(''company'', PDict [(''$exists'', PBool True)])])]
       | _ \<Rightarrow> False)"
  by code_simp

section \<open>The retry budget of the chat loop\<close>

lemma prefetch_keeps:
  "prefetch ct name args t = Inr t1 \<Longrightarrow> t_found t1 = t_found t \<and> t_retries t1 = t_retries t"
  by (auto simp: prefetch_def Let_def split: if_splits prod.splits sum.splits)

lemma empty_call_step:
  assumes "name \<noteq> ''search''" and "\<not> t_found t"
    and "prefetch ct name args t = Inr t1"
    and "ct name args (t_host t1) = (Inr (out, True), h2)"
  shows "chat_loop ct enrich q hist (FunctionCall name args # script) t =
         chat_loop ct enrich q hist script
           (account True (t1\<lparr>t_host := h2,
                             t_messages := t_messages t1 @ [FunctionMsg name (enrich out)]\<rparr>))"
  using assms by simp

text \<open>
  C10, as stated, at a turn whose only requested tool call is a \<^verbatim>\<open>count\<close> that
  returns zero (as does the prefetched one): the model answers in text, the first
  text is refused with the nudge, and the second is summarised and returned. The
  two retries are consumed, the reply reports the zero, and the canned no-data message
  is nowhere in the conversation.
\<close>

theorem zero_count_reply_counterexample:
  "(case run_chat example_caller id (SystemMsg ''date'') (SystemMsg ''charter'')
            (PDict [(''result'', PList [PStr ''leads''])]) ''how many leads?'' []
            [FunctionCall ''count'' count_leads, Content ''There are 0 leads.'',
             Content ''There are 0 leads.'', Content ''You have 0 leads.''] example_host of
       Returned reply hist t \<Rightarrow>
         reply = ''You have 0 leads.'' \<and> AssistantMsg NO_DATA \<notin> set (t_messages t)
         \<and> t_retries t = 0 \<and> \<not> t_found t
     | _ \<Rightarrow> False)"
  by code_simp

text \<open>
  C10, amended: a \<^verbatim>\<open>count\<close> result \<^verbatim>\<open>{"result": 0}\<close> is classified as empty, and the
  orchestrator's tool call passes that on. While nothing is found,
  \<^item> a tool call (other than \<^verbatim>\<open>search\<close>) that returns empty consumes one retry if one
    is left, and otherwise appends the canned no-data assistant message and sets
    \<open>found\<close>, after which the loop asks the model again;
  \<^item> a text reply of the model consumes one retry and is answered with the nudge if a
    retry is left, and otherwise is summarised and returned as the reply of the turn.
  So the canned message comes with an empty tool call once both retries are consumed
  (the third of three zero counts, say), not with a text reply.
\<close>

theorem chat_loop_empty_accounting:
  "result_is_empty ''count'' (PDict [(''result'', PInt 0)])
   \<and> (set_current_company_id cid h = Inr h0
        \<and> rpc_call_tool e ''count'' args h0 = (Inr (PDict [(''result'', PInt 0)]), h1) \<longrightarrow>
        call_tool e str ''count'' args cid h = (Inr (PDict [(''result'', PInt 0)], True), h1))
   \<and> (name \<noteq> ''search'' \<and> \<not> t_found t \<and> t_retries t \<noteq> 0
        \<and> prefetch ct name args t = Inr t1
        \<and> ct name args (t_host t1) = (Inr (out, True), h2) \<longrightarrow>
        (\<exists>t'. chat_loop ct enrich q hist (FunctionCall name args # script) t =
                chat_loop ct enrich q hist script t'
             \<and> \<not> t_found t' \<and> t_retries t' = t_retries t - 1
             \<and> t_messages t' = t_messages t1 @ [FunctionMsg name (enrich out)]
             \<and> t_host t' = h2))
   \<and> (name \<noteq> ''search'' \<and> \<not> t_found t \<and> t_retries t = 0
        \<and> prefetch ct name args t = Inr t1
        \<and> ct name args (t_host t1) = (Inr (out, True), h2) \<longrightarrow>
        (\<exists>t'. chat_loop ct enrich q hist (FunctionCall name args # script) t =
                chat_loop ct enrich q hist script t'
             \<and> t_found t' \<and> t_retries t' = 0
             \<and> t_messages t' =
                 t_messages t1 @ [FunctionMsg name (enrich out), AssistantMsg NO_DATA]
             \<and> t_host t' = h2))
   \<and> (\<not> t_found t \<and> t_retries t \<noteq> 0 \<longrightarrow>
        (\<exists>t'. chat_loop ct enrich q hist (Content raw # script) t =
                chat_loop ct enrich q hist script t'
             \<and> \<not> t_found t' \<and> t_retries t' = t_retries t - 1
             \<and> t_messages t' = t_messages t @ [AssistantMsg STILL_NO_DATA]
             \<and> t_host t' = t_host t))
   \<and> (\<not> t_found t \<and> t_retries t = 0 \<longrightarrow>
        chat_loop ct enrich q hist (Content raw # Content c # script) t =
          Returned (strip c)
            (deque_append 10 (AssistantMsg (strip c)) (deque_append 10 (UserMsg q) hist)) t)"
proof (intro conjI impI)
  show "result_is_empty ''count'' (PDict [(''result'', PInt 0)])"
    by (simp add: result_is_empty_def get_default_def)
next
  assume "set_current_company_id cid h = Inr h0
        \<and> rpc_call_tool e ''count'' args h0 = (Inr (PDict [(''result'', PInt 0)]), h1)"
  then show "call_tool e str ''count'' args cid h = (Inr (PDict [(''result'', PInt 0)], True), h1)"
    by (simp add: call_tool_def trim_result_def result_is_empty_def get_default_def)
next
  assume a: "name \<noteq> ''search'' \<and> \<not> t_found t \<and> t_retries t \<noteq> 0
        \<and> prefetch ct name args t = Inr t1
        \<and> ct name args (t_host t1) = (Inr (out, True), h2)"
  then have step: "chat_loop ct enrich q hist (FunctionCall name args # script) t =
         chat_loop ct enrich q hist script
           (account True (t1\<lparr>t_host := h2,
                             t_messages := t_messages t1 @ [FunctionMsg name (enrich out)]\<rparr>))"
    by (intro empty_call_step) simp_all
  from a prefetch_keeps[of ct name args t t1]
  have k: "\<not> t_found t1" "t_retries t1 = t_retries t" "t_retries t \<noteq> 0" by simp_all
  show "\<exists>t'. chat_loop ct enrich q hist (FunctionCall name args # script) t =
                chat_loop ct enrich q hist script t'
             \<and> \<not> t_found t' \<and> t_retries t' = t_retries t - 1
             \<and> t_messages t' = t_messages t1 @ [FunctionMsg name (enrich out)]
             \<and> t_host t' = h2"
    unfolding step
    by (rule exI[of _ "account True (t1\<lparr>t_host := h2,
                             t_messages := t_messages t1 @ [FunctionMsg name (enrich out)]\<rparr>)"])
       (simp add: account_def k)
next
  assume a: "name \<noteq> ''search'' \<and> \<not> t_found t \<and> t_retries t = 0
        \<and> prefetch ct name args t = Inr t1
        \<and> ct name args (t_host t1) = (Inr (out, True), h2)"
  then have step: "chat_loop ct enrich q hist (FunctionCall name args # script) t =
         chat_loop ct enrich q hist script
           (account True (t1\<lparr>t_host := h2,
                             t_messages := t_messages t1 @ [FunctionMsg name (enrich out)]\<rparr>))"
    by (intro empty_call_step) simp_all
  from a prefetch_keeps[of ct name args t t1]
  have k: "\<not> t_found t1" "t_retries t1 = 0" by simp_all
  show "\<exists>t'. chat_loop ct enrich q hist (FunctionCall name args # script) t =
                chat_loop ct enrich q hist script t'
             \<and> t_found t' \<and> t_retries t' = 0
             \<and> t_messages t' =
                 t_messages t1 @ [FunctionMsg name (enrich out), AssistantMsg NO_DATA]
             \<and> t_host t' = h2"
    unfolding step
    by (rule exI[of _ "account True (t1\<lparr>t_host := h2,
                             t_messages := t_messages t1 @ [FunctionMsg name (enrich out)]\<rparr>)"])
       (simp add: account_def k)
next
  assume a: "\<not> t_found t \<and> t_retries t \<noteq> 0"
  show "\<exists>t'. chat_loop ct enrich q hist (Content raw # script) t =
                chat_loop ct enrich q hist script t'
             \<and> \<not> t_found t' \<and> t_retries t' = t_retries t - 1
             \<and> t_messages t' = t_messages t @ [AssistantMsg STILL_NO_DATA]
             \<and> t_host t' = t_host t"
    by (rule exI[of _ "t\<lparr>t_retries := t_retries t - 1,
             t_messages := t_messages t @ [AssistantMsg STILL_NO_DATA]\<rparr>"])
       (simp add: a)
next
  assume "\<not> t_found t \<and> t_retries t = 0"
  then show "chat_loop ct enrich q hist (Content raw # Content c # script) t =
          Returned (strip c)
            (deque_append 10 (AssistantMsg (strip c)) (deque_append 10 (UserMsg q) hist)) t"
    by (simp add: Let_def)
qed

theorem chat_loop_empty_accounting_witness:
  "\<not> t_found fresh_turn \<and> t_retries fresh_turn \<noteq> 0
   \<and> \<not> t_found spent_turn \<and> t_retries spent_turn = 0
   \<and> (\<exists>t'. chat_loop example_caller id ''how many leads?'' []
               (FunctionCall ''count'' count_leads # []) fresh_turn =
             chat_loop example_caller id ''how many leads?'' [] [] t'
           \<and> \<not> t_found t' \<and> t_retries t' = 1)
   \<and> (\<exists>t'. chat_loop example_caller id ''how many leads?'' []
               (FunctionCall ''count'' count_leads # []) spent_turn =
             chat_loop example_caller id ''how many leads?'' [] [] t'
           \<and> t_found t' \<and> t_retries t' = 0
           \<and> last (t_messages t') = AssistantMsg NO_DATA)
   \<and> (\<exists>t'. chat_loop example_caller id ''how many leads?'' []
               (Content ''There are 0 leads.'' # []) fresh_turn =
             chat_loop example_caller id ''how many leads?'' [] [] t'
           \<and> t_retries t' = 1
           \<and> last (t_messages t') = AssistantMsg STILL_NO_DATA)
   \<and> chat_loop example_caller id ''how many leads?'' []
        (Content ''There are 0 leads.'' # Content ''You have 0 leads.'' # []) spent_turn =
        Returned (strip ''You have 0 leads.'')
          (deque_append 10 (AssistantMsg (strip ''You have 0 leads.''))
             (deque_append 10 (UserMsg ''how many leads?'') [])) spent_turn"
proof -
  have f: "\<not> t_found fresh_turn \<and> t_retries fresh_turn \<noteq> 0"
    by (simp add: fresh_turn_def)
  have s: "\<not> t_found spent_turn \<and> t_retries spent_turn = 0"
    by (simp add: spent_turn_def)
  have n: "''count'' \<noteq> ''search''" by simp
  have ef: "(case prefetch example_caller ''count'' count_leads fresh_turn of
       Inr t1 \<Rightarrow> (case example_caller ''count'' count_leads (t_host t1) of
                   (Inr (out, emp), h2) \<Rightarrow> emp | _ \<Rightarrow> False)
     | Inl x \<Rightarrow> False)"
    by code_simp
  then obtain t1 out h2 where
    p1: "prefetch example_caller ''count'' count_leads fresh_turn = Inr t1"
    and c1: "example_caller ''count'' count_leads (t_host t1) = (Inr (out, True), h2)"
    by (auto split: sum.splits prod.splits)
  have es: "(case prefetch example_caller ''count'' count_leads spent_turn of
       Inr t1 \<Rightarrow> (case example_caller ''count'' count_leads (t_host t1) of
                   (Inr (out, emp), h2) \<Rightarrow> emp | _ \<Rightarrow> False)
     | Inl x \<Rightarrow> False)"
    by code_simp
  then obtain t2 out2 h3 where
    p2: "prefetch example_caller ''count'' count_leads spent_turn = Inr t2"
    and c2: "example_caller ''count'' count_leads (t_host t2) = (Inr (out2, True), h3)"
    by (auto split: sum.splits prod.splits)
  note A = chat_loop_empty_accounting [where name = "''count''" and t = fresh_turn
      and ct = example_caller and args = count_leads and ?t1.0 = t1 and out = out and ?h2.0 = h2
      and enrich = id and q = "''how many leads?''" and hist = "[]" and script = "[]"
      and raw = "''There are 0 leads.''" and c = "''You have 0 leads.''"]
  note B = chat_loop_empty_accounting [where name = "''count''" and t = spent_turn
      and ct = example_caller and args = count_leads and ?t1.0 = t2 and out = out2 and ?h2.0 = h3
      and enrich = id and q = "''how many leads?''" and hist = "[]" and script = "[]"
      and raw = "''There are 0 leads.''" and c = "''You have 0 leads.''"]
  from A f n p1 c1 have g1: "\<exists>t'. chat_loop example_caller id ''how many leads?'' []
               (FunctionCall ''count'' count_leads # []) fresh_turn =
             chat_loop example_caller id ''how many leads?'' [] [] t'
           \<and> \<not> t_found t' \<and> t_retries t' = 1"
    by (auto simp: fresh_turn_def)
  from B s n p2 c2 have g2: "\<exists>t'. chat_loop example_caller id ''how many leads?'' []
               (FunctionCall ''count'' count_leads # []) spent_turn =
             chat_loop example_caller id ''how many leads?'' [] [] t'
           \<and> t_found t' \<and> t_retries t' = 0
           \<and> last (t_messages t') = AssistantMsg NO_DATA"
    by auto
  from A f have g3: "\<exists>t'. chat_loop example_caller id ''how many leads?'' []
               (Content ''There are 0 leads.'' # []) fresh_turn =
             chat_loop example_caller id ''how many leads?'' [] [] t'
           \<and> t_retries t' = 1
           \<and> last (t_messages t') = AssistantMsg STILL_NO_DATA"
    by (auto simp: fresh_turn_def)
  from B s have g4: "chat_loop example_caller id ''how many leads?'' []
        (Content ''There are 0 leads.'' # Content ''You have 0 leads.'' # []) spent_turn =
        Returned (strip ''You have 0 leads.'')
          (deque_append 10 (AssistantMsg (strip ''You have 0 leads.''))
             (deque_append 10 (UserMsg ''how many leads?'') [])) spent_turn"
    by blast
  show ?thesis
    using f s g1 g2 g3 g4 by (intro conjI) blast+
qed

end
